theory Spec2Isabelle
  imports Main "HOL-Library.Word" "HOL-Library.AList" "HOL-Library.Monad_Syntax"
begin

text \<open>
  The back end of the PI Web API data source: how a query becomes request URIs
  (\<open>getQueryBaseURL\<close>), how its target expands into processed queries (\<open>processQuery\<close>),
  how the batch call is made and its answers are put back (\<open>batchRequest\<close>), how one
  sub-response is classified (\<open>PIBatchResponse.UnmarshalJSON\<close>) and how frames and streaming
  channels are produced (\<open>processBatchtoFrames\<close>, \<open>QueryData\<close>). The definitions follow the Go
  source function by function; the theorems come after them.
\<close>

section \<open>Errors and results\<close>

text \<open>
  A Go function of the plugin either returns, returns a Go \<open>error\<close> value, or panics at run
  time. All three are values here: \<open>Inl\<close> carries the panic or the returned error,
  \<open>Inr\<close> the ordinary result.
\<close>

datatype error =
    NilDereference       \<comment> \<open>method call on a nil interface, field write through a nil pointer\<close>
  | IndexOutOfRange      \<comment> \<open>\<open>xs[i]\<close> with \<open>i\<close> outside \<open>0..len-1\<close>\<close>
  | SliceBounds          \<comment> \<open>\<open>s[:i]\<close> or \<open>s[i:]\<close> with \<open>i\<close> outside \<open>0..len\<close>\<close>
  | GoError string       \<comment> \<open>a returned \<open>error\<close> value\<close>

type_synonym 'a result = "error + 'a"

fun is_panic :: "error \<Rightarrow> bool" where
  "is_panic (GoError _) = False"
| "is_panic _ = True"

section \<open>Strings: the library calls the plugin makes\<close>

text \<open>
  Go strings are byte sequences, as \<open>string\<close> is. \<open>strings.Index\<close> and \<open>strings.Split\<close>
  are only ever called with the one-byte separator \<open>";"\<close>, so both take a byte.
\<close>

fun strings_Index :: "string \<Rightarrow> char \<Rightarrow> int" where
  "strings_Index [] c = -1"
| "strings_Index (x # xs) c =
     (if x = c then 0
      else (let i = strings_Index xs c in if i < 0 then -1 else i + 1))"

fun strings_Split :: "string \<Rightarrow> char \<Rightarrow> string list" where
  "strings_Split [] c = [[]]"
| "strings_Split (x # xs) c =
     (if x = c then [] # strings_Split xs c
      else (case strings_Split xs c of
              [] \<Rightarrow> [[x]]
            | seg # segs \<Rightarrow> (x # seg) # segs))"

text \<open>The slice expressions \<open>s[:i]\<close> and \<open>s[i:]\<close> panic when \<open>i\<close> is out of range.\<close>

definition slice_to :: "string \<Rightarrow> int \<Rightarrow> string result" where
  "slice_to s i = (if 0 \<le> i \<and> i \<le> int (length s) then Inr (take (nat i) s) else Inl SliceBounds)"

definition slice_from :: "string \<Rightarrow> int \<Rightarrow> string result" where
  "slice_from s i = (if 0 \<le> i \<and> i \<le> int (length s) then Inr (drop (nat i) s) else Inl SliceBounds)"

text \<open>\<open>fmt.Sprintf("%d", n)\<close>: decimal digits, a leading minus sign for a negative number.\<close>

definition digit_char :: "nat \<Rightarrow> char" where
  "digit_char d = ''0123456789'' ! d"

fun show_nat :: "nat \<Rightarrow> string" where
  "show_nat n = (if n < 10 then [digit_char n] else show_nat (n div 10) @ [digit_char (n mod 10)])"

declare show_nat.simps [simp del]

definition show_int :: "int \<Rightarrow> string" where
  "show_int i = (if i < 0 then CHR ''-'' # show_nat (nat (- i)) else show_nat (nat i))"

text \<open>
  \<open>url.QueryEscape\<close>: letters, digits and \<open>- _ . ~\<close> stay, a space becomes \<open>+\<close>, every
  other byte becomes \<open>%XX\<close> with upper-case hexadecimal digits.
\<close>

definition is_unreserved :: "char \<Rightarrow> bool" where
  "is_unreserved c \<longleftrightarrow>
     (let n = (of_char c :: nat) in
        (97 \<le> n \<and> n \<le> 122) \<or> (65 \<le> n \<and> n \<le> 90) \<or> (48 \<le> n \<and> n \<le> 57)
        \<or> c = CHR ''-'' \<or> c = CHR ''_'' \<or> c = CHR ''.'' \<or> c = CHR ''~'')"

definition upperhex :: "nat \<Rightarrow> char" where
  "upperhex d = (''0123456789ABCDEF'') ! (d mod 16)"

definition escape_byte :: "char \<Rightarrow> string" where
  "escape_byte c =
     (if is_unreserved c then [c]
      else if c = CHR '' '' then ''+''
      else [CHR ''%'', upperhex ((of_char c :: nat) div 16), upperhex ((of_char c :: nat) mod 16)])"

definition QueryEscape :: "string \<Rightarrow> string" where
  "QueryEscape s = concat (map escape_byte s)"

section \<open>The query\<close>

text \<open>
  \<open>int\<close> and \<open>int64\<close> are 64-bit words (the plugin's targets are 64-bit, where the conversion
  \<open>int(q.Interval)\<close> changes nothing). \<open>time.Time\<close> is a type parameter; rendering an instant
  as \<open>t.UTC().Format(time.RFC3339)\<close> belongs to Go's library and is passed to the URI builder
  as the function \<open>rfc3339\<close>. Of \<open>PIWebAPIQuery\<close> the fields the back end reads are kept;
  the one-field structs \<open>{Enable bool}\<close> are flattened to \<open>X_Enable\<close>.
\<close>

record SummaryTYpeValue =
  Expandable :: bool
  Value :: string

record SummaryType =
  Label :: string
  Value :: SummaryTYpeValue

record QuerySummary =
  Basis :: string
  Interval :: string
  Nodata :: string
  Types :: "SummaryType list"

record PIWebAPIQuery =
  EnableStreaming_Enable :: bool
  Expression :: string
  Interpolate_Enable :: bool
  IntervalMs :: "64 word"
  IsPiPoint :: bool
  MaxDataPoints :: "64 word"
  RecordedValues_Enable :: bool
  Regex_Enable :: bool
  Summary :: QuerySummary
  Target :: string

record 't TimeRange =
  From :: 't
  To :: 't

record 't Query =
  RefID :: string
  QueryType :: string
  MaxDataPoints :: "64 word"
  Interval :: "64 word"
  TimeRange :: "'t TimeRange"
  Pi :: PIWebAPIQuery

definition isExpression :: "PIWebAPIQuery \<Rightarrow> bool" where
  "isExpression q \<longleftrightarrow> Expression q \<noteq> ''''"

definition isSummary :: "PIWebAPIQuery \<Rightarrow> bool" where
  "isSummary q \<longleftrightarrow> Basis (Summary q) \<noteq> '''' \<and> length (Types (Summary q)) > 0"

definition isRecordedValues :: "PIWebAPIQuery \<Rightarrow> bool" where
  "isRecordedValues q = RecordedValues_Enable q"

definition isInterpolated :: "PIWebAPIQuery \<Rightarrow> bool" where
  "isInterpolated q = Interpolate_Enable q"

definition isRegex :: "PIWebAPIQuery \<Rightarrow> bool" where
  "isRegex q = Regex_Enable q"

definition getIntervalTime :: "'t Query \<Rightarrow> 64 word" where
  "getIntervalTime q = (if IntervalMs (Pi q) = 0 then Query.Interval q else IntervalMs (Pi q))"

definition getMaxDataPoints :: "'t Query \<Rightarrow> 64 word" where
  "getMaxDataPoints q =
     (if PIWebAPIQuery.MaxDataPoints (Pi q) = 0 then Query.MaxDataPoints q
      else PIWebAPIQuery.MaxDataPoints (Pi q))"

definition getTimeRangeURIComponent :: "('t \<Rightarrow> string) \<Rightarrow> 't Query \<Rightarrow> string" where
  "getTimeRangeURIComponent rfc3339 q =
     ''?startTime='' @ rfc3339 (From (TimeRange q)) @ ''&endTime='' @ rfc3339 (To (TimeRange q))"

definition streamingEnabled :: "'t Query \<Rightarrow> bool" where
  "streamingEnabled q = EnableStreaming_Enable (Pi q)"

definition isStreamable :: "'t Query \<Rightarrow> bool" where
  "isStreamable q \<longleftrightarrow> \<not> isExpression (Pi q) \<and> streamingEnabled q"

definition getSummaryDuration :: "PIWebAPIQuery \<Rightarrow> string" where
  "getSummaryDuration q =
     (if QuerySummary.Interval (Summary q) = '''' then ''30s'' else QuerySummary.Interval (Summary q))"

text \<open>The loop over \<open>q.Summary.Types\<close> appends one parameter per type to \<open>uri\<close>.\<close>

fun summaryTypes_loop :: "string \<Rightarrow> SummaryType list \<Rightarrow> string" where
  "summaryTypes_loop uri [] = uri"
| "summaryTypes_loop uri (t # ts) =
     summaryTypes_loop (uri @ ''&summaryType='' @ SummaryTYpeValue.Value (SummaryType.Value t)) ts"

definition getSummaryURIComponent :: "PIWebAPIQuery \<Rightarrow> string" where
  "getSummaryURIComponent q =
     (if \<not> isExpression q then
        (let uri = summaryTypes_loop '''' (Types (Summary q));
             uri = uri @ ''&summaryBasis='' @ Basis (Summary q);
             uri = uri @ ''&summaryDuration='' @ getSummaryDuration q
         in uri)
      else '''')"

definition getBasePath :: "PIWebAPIQuery \<Rightarrow> string result" where
  "getBasePath q = (let semiIndex = strings_Index (Target q) CHR '';'' in slice_to (Target q) semiIndex)"

definition getTargets :: "PIWebAPIQuery \<Rightarrow> string list result" where
  "getTargets q =
     (let semiIndex = strings_Index (Target q) CHR '';'' in
        case slice_from (Target q) (semiIndex + 1) of
          Inl e \<Rightarrow> Inl e
        | Inr rest \<Rightarrow> Inr (strings_Split rest CHR '';''))"

definition getQueryBaseURL :: "('t \<Rightarrow> string) \<Rightarrow> 't Query \<Rightarrow> string" where
  "getQueryBaseURL rfc3339 q =
     (if isExpression (Pi q) then
        ''/calculation'' @
        (if isSummary (Pi q) then
           ''/summary'' @ getTimeRangeURIComponent rfc3339 q @
           (if isInterpolated (Pi q)
            then ''&sampleType=Interval&sampleInterval='' @ show_int (sint (getIntervalTime q)) @ ''ms''
            else '''')
         else
           ''/intervals'' @ getTimeRangeURIComponent rfc3339 q @
           ''&sampleInterval='' @ show_int (sint (getIntervalTime q)) @ ''ms'') @
        ''&expression='' @ QueryEscape (Expression (Pi q))
      else
        ''/streamsets'' @
        (if isSummary (Pi q) then
           ''/summary'' @ getTimeRangeURIComponent rfc3339 q @
           ''&intervals='' @ show_int (sint (getMaxDataPoints q)) @
           getSummaryURIComponent (Pi q)
         else if isInterpolated (Pi q) then
           ''/interpolated'' @ getTimeRangeURIComponent rfc3339 q @
           ''&interval='' @ show_int (sint (getIntervalTime q))
         else if isRecordedValues (Pi q) then
           ''/recorded'' @ getTimeRangeURIComponent rfc3339 q @
           ''&maxCount='' @ show_int (sint (getMaxDataPoints q))
         else
           ''/plot'' @ getTimeRangeURIComponent rfc3339 q @
           ''&intervals='' @ show_int (sint (getMaxDataPoints q))))"

section \<open>JSON\<close>

text \<open>
  A byte slice handed to \<open>encoding/json\<close> is represented by its parse: \<open>None\<close> when the
  bytes are not well-formed JSON, otherwise the value. Integer literals are \<open>JInt\<close>; a number
  written with a fraction or an exponent keeps its text in \<open>JReal\<close> (Go decodes the first
  kind into an \<open>int\<close> field and rejects the second there). Objects are association lists
  read with \<open>map_of\<close>, and are taken with distinct keys spelled as the struct tags spell them.
\<close>

datatype json =
    JNull
  | JBool bool
  | JInt int
  | JReal string
  | JStr string
  | JArr "json list"
  | JObj "(string \<times> json) list"

text \<open>
  Decoding into a typed Go value. \<open>None\<close> is an \<open>UnmarshalTypeError\<close>. A missing member and
  \<open>null\<close> both leave the zero value.
\<close>

fun dec_string :: "json option \<Rightarrow> string option" where
  "dec_string None = Some ''''"
| "dec_string (Some JNull) = Some ''''"
| "dec_string (Some (JStr s)) = Some s"
| "dec_string (Some _) = None"

fun dec_bool :: "json option \<Rightarrow> bool option" where
  "dec_bool None = Some False"
| "dec_bool (Some JNull) = Some False"
| "dec_bool (Some (JBool b)) = Some b"
| "dec_bool (Some _) = None"

fun dec_any :: "json option \<Rightarrow> json" where
  "dec_any None = JNull"
| "dec_any (Some v) = v"

fun dec_slice :: "(json \<Rightarrow> 'a option) \<Rightarrow> json option \<Rightarrow> 'a list option" where
  "dec_slice f None = Some []"
| "dec_slice f (Some JNull) = Some []"
| "dec_slice f (Some (JArr xs)) = those (map f xs)"
| "dec_slice f (Some _) = None"

fun dec_map_any :: "json option \<Rightarrow> (string \<times> json) list option" where
  "dec_map_any None = Some []"
| "dec_map_any (Some JNull) = Some []"
| "dec_map_any (Some (JObj kv)) = Some kv"
| "dec_map_any (Some _) = None"

fun dec_string_ptr :: "json option \<Rightarrow> string option option" where
  "dec_string_ptr None = Some None"
| "dec_string_ptr (Some JNull) = Some None"
| "dec_string_ptr (Some (JStr s)) = Some (Some s)"
| "dec_string_ptr (Some _) = None"

text \<open>An \<open>int\<close> field takes an integer literal that fits 64 bits.\<close>

fun dec_int :: "json option \<Rightarrow> int option" where
  "dec_int None = Some 0"
| "dec_int (Some JNull) = Some 0"
| "dec_int (Some (JInt n)) = (if - (2 ^ 63) \<le> n \<and> n < 2 ^ 63 then Some n else None)"
| "dec_int (Some _) = None"

section \<open>Batch responses\<close>

record ErrorResponse =
  Errors :: "string list"

record PiBatchContentLinks =
  Source :: string

record PiBatchContentItem =
  Timestamp :: string
  Value :: json
  UnitsAbbreviation :: string
  Good :: bool
  Questionable :: bool
  Substituted :: bool
  Annotated :: bool

record PiBatchContentItems =
  WebId :: string
  Name :: string
  Path :: string
  Links :: PiBatchContentLinks
  Items :: "PiBatchContentItem list"
  UnitsAbbreviation :: string

record PiBatchDataWithSubItems =
  Links :: "(string \<times> json) list"
  Items :: "PiBatchContentItems list"
  Error :: "string option"

record PiBatchDataWithoutSubItems =
  Links :: "(string \<times> json) list"
  Items :: "PiBatchContentItem list"
  UnitsAbbreviation :: string

text \<open>
  The interface \<open>PiBatchData\<close> has three implementations. A nil interface value is
  \<open>None\<close> of \<open>PiBatchData option\<close>.
\<close>

datatype PiBatchData =
    DataError ErrorResponse
  | DataWithSubItems PiBatchDataWithSubItems
  | DataWithoutSubItems PiBatchDataWithoutSubItems


fun getItems :: "PiBatchData \<Rightarrow> PiBatchContentItem list result" where
  "getItems (DataError p) = Inr []"
| "getItems (DataWithSubItems p) =
     (case PiBatchDataWithSubItems.Items p of
        [] \<Rightarrow> Inl IndexOutOfRange
      | i0 # _ \<Rightarrow> Inr (PiBatchContentItems.Items i0))"
| "getItems (DataWithoutSubItems p) = Inr (PiBatchDataWithoutSubItems.Items p)"

text \<open>Calling a method through the interface: a nil interface panics.\<close>

fun call_getItems :: "PiBatchData option \<Rightarrow> PiBatchContentItem list result" where
  "call_getItems None = Inl NilDereference"
| "call_getItems (Some p) = getItems p"


record PIBatchResponse =
  Status :: int
  Content :: "PiBatchData option"

definition createPiBatchDataError :: "string list \<Rightarrow> PiBatchData" where
  "createPiBatchDataError errorMessage = DataError \<lparr>Errors = errorMessage\<rparr>"

fun dec_PiBatchContentItem :: "json \<Rightarrow> PiBatchContentItem option" where
  "dec_PiBatchContentItem JNull =
     Some \<lparr>Timestamp = '''', Value = JNull, UnitsAbbreviation = '''', Good = False,
           Questionable = False, Substituted = False, Annotated = False\<rparr>"
| "dec_PiBatchContentItem (JObj kv) =
     do {
       ts \<leftarrow> dec_string (map_of kv ''Timestamp'');
       un \<leftarrow> dec_string (map_of kv ''UnitsAbbreviation'');
       g \<leftarrow> dec_bool (map_of kv ''Good'');
       q \<leftarrow> dec_bool (map_of kv ''Questionable'');
       s \<leftarrow> dec_bool (map_of kv ''Substituted'');
       a \<leftarrow> dec_bool (map_of kv ''Annotated'');
       Some \<lparr>Timestamp = ts, Value = dec_any (map_of kv ''Value''), UnitsAbbreviation = un,
             Good = g, Questionable = q, Substituted = s, Annotated = a\<rparr>
     }"
| "dec_PiBatchContentItem _ = None"

fun dec_PiBatchContentLinks :: "json option \<Rightarrow> PiBatchContentLinks option" where
  "dec_PiBatchContentLinks None = Some \<lparr>Source = ''''\<rparr>"
| "dec_PiBatchContentLinks (Some JNull) = Some \<lparr>Source = ''''\<rparr>"
| "dec_PiBatchContentLinks (Some (JObj kv)) =
     do { s \<leftarrow> dec_string (map_of kv ''Source''); Some \<lparr>Source = s\<rparr> }"
| "dec_PiBatchContentLinks (Some _) = None"

fun dec_PiBatchContentItems :: "json \<Rightarrow> PiBatchContentItems option" where
  "dec_PiBatchContentItems JNull =
     Some \<lparr>WebId = '''', Name = '''', Path = '''', Links = \<lparr>Source = ''''\<rparr>, Items = [],
           UnitsAbbreviation = ''''\<rparr>"
| "dec_PiBatchContentItems (JObj kv) =
     do {
       w \<leftarrow> dec_string (map_of kv ''WebId'');
       n \<leftarrow> dec_string (map_of kv ''Name'');
       p \<leftarrow> dec_string (map_of kv ''Path'');
       l \<leftarrow> dec_PiBatchContentLinks (map_of kv ''Links'');
       its \<leftarrow> dec_slice dec_PiBatchContentItem (map_of kv ''Items'');
       un \<leftarrow> dec_string (map_of kv ''UnitsAbbreviation'');
       Some \<lparr>WebId = w, Name = n, Path = p, Links = l, Items = its, UnitsAbbreviation = un\<rparr>
     }"
| "dec_PiBatchContentItems _ = None"

definition dec_ErrorResponse :: "(string \<times> json) list \<Rightarrow> ErrorResponse option" where
  "dec_ErrorResponse kv =
     do { es \<leftarrow> dec_slice (\<lambda>j. dec_string (Some j)) (map_of kv ''Errors''); Some \<lparr>Errors = es\<rparr> }"

definition dec_PiBatchDataWithoutSubItems ::
    "(string \<times> json) list \<Rightarrow> PiBatchDataWithoutSubItems option" where
  "dec_PiBatchDataWithoutSubItems kv =
     do {
       l \<leftarrow> dec_map_any (map_of kv ''Links'');
       its \<leftarrow> dec_slice dec_PiBatchContentItem (map_of kv ''Items'');
       un \<leftarrow> dec_string (map_of kv ''UnitsAbbreviation'');
       Some \<lparr>PiBatchDataWithoutSubItems.Links = l, PiBatchDataWithoutSubItems.Items = its,
             PiBatchDataWithoutSubItems.UnitsAbbreviation = un\<rparr>
     }"

definition dec_PiBatchDataWithSubItems ::
    "(string \<times> json) list \<Rightarrow> PiBatchDataWithSubItems option" where
  "dec_PiBatchDataWithSubItems kv =
     do {
       l \<leftarrow> dec_map_any (map_of kv ''Links'');
       its \<leftarrow> dec_slice dec_PiBatchContentItems (map_of kv ''Items'');
       e \<leftarrow> dec_string_ptr (map_of kv ''Error'');
       Some \<lparr>PiBatchDataWithSubItems.Links = l, PiBatchDataWithSubItems.Items = its,
             PiBatchDataWithSubItems.Error = e\<rparr>
     }"

text \<open>
  \<open>json.Unmarshal(data, &PIBatchResponseBase)\<close>, its error dropped: \<open>Status\<close> is the decoded
  member when it decodes, and stays 0 otherwise. \<open>Headers\<close> is read by nothing and left out.
  \<open>rawContent\<close>, the re-encoding of the decoded \<open>Content\<close>, stands for the same value, so
  the typed decoders read \<open>Content\<close> itself.
\<close>

definition dec_Status :: "json option \<Rightarrow> int" where
  "dec_Status data =
     (case data of
        Some (JObj kv) \<Rightarrow> (case dec_int (map_of kv ''Status'') of Some n \<Rightarrow> n | None \<Rightarrow> 0)
      | _ \<Rightarrow> 0)"

definition could_not_process :: "string list" where
  "could_not_process = [''Could not process response from PI Web API'']"

definition UnmarshalJSON :: "json option \<Rightarrow> PIBatchResponse result" where
  "UnmarshalJSON data =
     (let status = dec_Status data in
      case data of
        None \<Rightarrow> Inl (GoError ''invalid character'')
      | Some body \<Rightarrow>
        (case dec_map_any (Some body) of
           None \<Rightarrow> Inl (GoError ''cannot unmarshal into Go value of type map[string]interface {}'')
         | Some rawData \<Rightarrow>
           (case map_of rawData ''Content'' of
              Some (JObj content) \<Rightarrow>
                if status \<noteq> 200 then
                  (case dec_ErrorResponse content of
                     None \<Rightarrow> Inl (GoError ''cannot unmarshal into Go struct field ErrorResponse.Errors'')
                   | Some temp_error \<Rightarrow>
                       Inr \<lparr>Status = status,
                            Content = Some (createPiBatchDataError (Errors temp_error))\<rparr>)
                else
                  (case map_of content ''Items'' of
                     Some (JArr items) \<Rightarrow>
                       (case items of
                          [] \<Rightarrow> Inl IndexOutOfRange
                        | i0 # _ \<Rightarrow>
                          (case i0 of
                             JObj item \<Rightarrow>
                               (case map_of item ''WebId'' of
                                  Some (JStr _) \<Rightarrow>
                                    (case dec_PiBatchDataWithSubItems content of
                                       None \<Rightarrow>
                                         Inr \<lparr>Status = status,
                                              Content = Some (createPiBatchDataError could_not_process)\<rparr>
                                     | Some ResContent \<Rightarrow>
                                         Inr \<lparr>Status = status,
                                              Content = Some (DataWithSubItems ResContent)\<rparr>)
                                | _ \<Rightarrow>
                                    (case dec_PiBatchDataWithoutSubItems content of
                                       None \<Rightarrow>
                                         Inr \<lparr>Status = status,
                                              Content = Some (createPiBatchDataError could_not_process)\<rparr>
                                     | Some ResContent \<Rightarrow>
                                         Inr \<lparr>Status = status,
                                              Content = Some (DataWithoutSubItems ResContent)\<rparr>))
                           | _ \<Rightarrow>
                               Inr \<lparr>Status = status,
                                    Content = Some (createPiBatchDataError could_not_process)\<rparr>))
                   | _ \<Rightarrow>
                       Inr \<lparr>Status = status,
                            Content = Some (createPiBatchDataError could_not_process)\<rparr>)
            | _ \<Rightarrow> Inl (GoError ''key 'Content' not found in raw JSON''))))"

section \<open>The request pipeline\<close>

record BatchSubRequest =
  Method :: string
  Resource :: string

record PiProcessedQuery =
  Label :: string
  WebID :: string
  UID :: string
  IntervalNanoSeconds :: "64 word"
  IsPIPoint :: bool
  Streamable :: bool
  FullTargetPath :: string
  ResponseUnits :: string
  BatchRequest :: BatchSubRequest
  Response :: "PiBatchData option"

record StreamChannelConstruct =
  WebID :: string
  IntervalNanoSeconds :: "64 word"

text \<open>
  The host's types, with the fields the plugin touches. A frame is handled through a pointer
  and so is its \<open>Meta\<close>: both may be nil. \<open>'f\<close> is whatever a frame holds as data.
\<close>

record FrameMeta =
  ExecutedQueryString :: string
  Channel :: string

record 'f Frame =
  Name :: string
  Fields :: 'f
  RefID :: string
  Meta :: "FrameMeta option"

record 'f DataResponse =
  Frames :: "'f Frame list"

record 't DataQuery =
  RefID :: string
  QueryType :: string
  MaxDataPoints :: "64 word"
  Interval :: "64 word"
  TimeRange :: "'t TimeRange"
  JSON :: "json option"

text \<open>
  What the pipeline calls and this development does not contain is a parameter:
  \<^item> \<open>rfc3339\<close>: \<open>t.UTC().Format(time.RFC3339)\<close>;
  \<^item> \<open>unmarshalQuery\<close>: the \<open>json.Marshal\<close> / \<open>json.Unmarshal\<close> round trip that turns the
    host's query into a \<open>Query\<close>, \<open>None\<close> when either step fails;
  \<^item> \<open>getWebID\<close>: the resolver, \<open>Inl\<close> its returned error, \<open>Inr\<close> the identifier of the
    entry it returns; its answer is taken as a function of the path and the point flag;
  \<^item> \<open>apiBatchRequest\<close>: the HTTP call, \<open>Inl\<close> its returned error, \<open>Inr\<close> the body;
  \<^item> \<open>getTypeForWebID\<close>, \<open>getDigitalStateforWebID\<close>, \<open>convertItemsToDataFrame\<close>: the frame
    builder and the two cache look-ups feeding it; the builder returns a frame pointer and
    an optional error;
  \<^item> \<open>newUUID\<close>: the text of the \<open>n\<close>-th identifier \<open>uuid.New()\<close> draws.
\<close>

record ('t, 'f) env =
  rfc3339 :: "'t \<Rightarrow> string"
  unmarshalQuery :: "'t DataQuery \<Rightarrow> 't Query option"
  getWebID :: "string \<Rightarrow> bool \<Rightarrow> string + string"
  apiBatchRequest :: "(string \<times> BatchSubRequest) list \<Rightarrow> string + json option"
  getTypeForWebID :: "string \<Rightarrow> string"
  getDigitalStateforWebID :: "string \<Rightarrow> bool"
  convertItemsToDataFrame ::
    "string \<Rightarrow> PiBatchContentItem list \<Rightarrow> string \<Rightarrow> bool \<Rightarrow> bool \<Rightarrow> 'f Frame option \<times> string option"
  newUUID :: "nat \<Rightarrow> string"

text \<open>
  Of the \<open>Datasource\<close> struct the pipeline reads \<open>settings.URL\<close> and writes
  \<open>channelConstruct\<close>. \<open>uuids_drawn\<close> counts the calls of \<open>uuid.New()\<close> so far.
\<close>

record Datasource =
  settings_URL :: string
  channelConstruct :: "string \<rightharpoonup> StreamChannelConstruct"
  uuids_drawn :: nat

subsection \<open>processQuery\<close>

text \<open>The body of the loop over \<open>PiQuery.Pi.getTargets()\<close>, with \<open>response\<close> as accumulator.\<close>

fun processQuery_loop ::
    "('t, 'f) env \<Rightarrow> Datasource \<Rightarrow> 't Query \<Rightarrow> string \<Rightarrow> PiProcessedQuery list \<Rightarrow> string list
     \<Rightarrow> PiProcessedQuery list result" where
  "processQuery_loop E d PiQuery datasourceUID response [] = Inr response"
| "processQuery_loop E d PiQuery datasourceUID response (target # targets) =
     (case getBasePath (Pi PiQuery) of
        Inl e \<Rightarrow> Inl e
      | Inr base \<Rightarrow>
          (let fullTargetPath =
                 (if IsPiPoint (Pi PiQuery) then base @ [CHR 0x5C] @ target
                  else base @ ''|'' @ target)
           in case getWebID E fullTargetPath (IsPiPoint (Pi PiQuery)) of
                Inl err \<Rightarrow> processQuery_loop E d PiQuery datasourceUID response targets
              | Inr webid \<Rightarrow>
                  (let batchSubRequest =
                         \<lparr>Method = ''GET'',
                          Resource = settings_URL d @ getQueryBaseURL (rfc3339 E) PiQuery
                                     @ ''&webid='' @ webid\<rparr>;
                       piQuery =
                         \<lparr>PiProcessedQuery.Label = target,
                          PiProcessedQuery.WebID = webid,
                          UID = datasourceUID,
                          PiProcessedQuery.IntervalNanoSeconds = Query.Interval PiQuery,
                          IsPIPoint = IsPiPoint (Pi PiQuery),
                          Streamable = isStreamable PiQuery,
                          FullTargetPath = fullTargetPath,
                          ResponseUnits = '''',
                          BatchRequest = batchSubRequest,
                          Response = None\<rparr>
                   in processQuery_loop E d PiQuery datasourceUID (response @ [piQuery]) targets)))"

definition processQuery ::
    "('t, 'f) env \<Rightarrow> Datasource \<Rightarrow> 't DataQuery \<Rightarrow> string \<Rightarrow> PiProcessedQuery list result" where
  "processQuery E d query datasourceUID =
     (case unmarshalQuery E query of
        None \<Rightarrow> Inr []
      | Some PiQuery \<Rightarrow>
          (case getTargets (Pi PiQuery) of
             Inl e \<Rightarrow> Inl e
           | Inr targets \<Rightarrow> processQuery_loop E d PiQuery datasourceUID [] targets))"

subsection \<open>batchRequest\<close>

text \<open>
  \<open>json.Unmarshal(r, &tempresponse)\<close> into \<open>map[int]PIBatchResponse\<close>. Each member's value
  goes through \<open>UnmarshalJSON\<close>, whose error ends the decoding and whose panic is not caught;
  then the key is read by \<open>strconv.ParseInt\<close>, and a key that is no integer is recorded as
  an error while decoding goes on.
\<close>

definition digit_val :: "char \<Rightarrow> nat option" where
  "digit_val c =
     (let n = (of_char c :: nat) in if 48 \<le> n \<and> n \<le> 57 then Some (n - 48) else None)"

fun parse_digits :: "string \<Rightarrow> nat \<Rightarrow> nat option" where
  "parse_digits [] acc = Some acc"
| "parse_digits (c # cs) acc =
     (case digit_val c of None \<Rightarrow> None | Some d \<Rightarrow> parse_digits cs (10 * acc + d))"

definition ParseInt :: "string \<Rightarrow> int option" where
  "ParseInt s =
     (case s of
        [] \<Rightarrow> None
      | c # cs \<Rightarrow>
          (let neg = (c = CHR ''-'');
               digits = (if c = CHR ''+'' \<or> c = CHR ''-'' then cs else s)
           in if digits = [] then None
              else case parse_digits digits 0 of
                     None \<Rightarrow> None
                   | Some n \<Rightarrow>
                       if neg then (if int n \<le> 2 ^ 63 then Some (- int n) else None)
                       else (if int n < 2 ^ 63 then Some (int n) else None)))"

fun unmarshal_members ::
    "(string \<times> json) list \<Rightarrow> bool \<Rightarrow> (int \<times> PIBatchResponse) list
     \<Rightarrow> (int \<times> PIBatchResponse) list result" where
  "unmarshal_members [] bad_key m =
     (if bad_key then Inl (GoError ''cannot unmarshal number into Go value of type int'') else Inr m)"
| "unmarshal_members ((k, v) # kvs) bad_key m =
     (case UnmarshalJSON (Some v) of
        Inl e \<Rightarrow> Inl e
      | Inr p \<Rightarrow>
          (case ParseInt k of
             None \<Rightarrow> unmarshal_members kvs True m
           | Some i \<Rightarrow> unmarshal_members kvs bad_key (AList.update i p m)))"

fun unmarshal_tempresponse :: "json option \<Rightarrow> (int \<times> PIBatchResponse) list result" where
  "unmarshal_tempresponse None = Inl (GoError ''invalid character'')"
| "unmarshal_tempresponse (Some JNull) = Inr []"
| "unmarshal_tempresponse (Some (JObj kvs)) = unmarshal_members kvs False []"
| "unmarshal_tempresponse (Some _) =
     Inl (GoError ''cannot unmarshal into Go value of type map[int]plugin.PIBatchResponse'')"

text \<open>\<open>tempresponse[i].Content\<close>: a missing key reads the zero response, whose content is nil.\<close>

definition tempresponse_Content :: "(int \<times> PIBatchResponse) list \<Rightarrow> nat \<Rightarrow> PiBatchData option" where
  "tempresponse_Content tempresponse i =
     (case map_of tempresponse (int i) of None \<Rightarrow> None | Some r \<Rightarrow> Content r)"

text \<open>
  One round of the loop over the RefIDs. A failed call and a failed decoding both
  \<open>continue\<close>, leaving the slice as it was.
\<close>

definition batchRequest_RefID :: "('t, 'f) env \<Rightarrow> PiProcessedQuery list \<Rightarrow> PiProcessedQuery list result" where
  "batchRequest_RefID E processed =
     (let batchRequest = map (\<lambda>(i, p). (show_nat i, BatchRequest p)) (enumerate 0 processed)
      in case apiBatchRequest E batchRequest of
           Inl err \<Rightarrow> Inr processed
         | Inr r \<Rightarrow>
             (case unmarshal_tempresponse r of
                Inl e \<Rightarrow> if is_panic e then Inl e else Inr processed
              | Inr tempresponse \<Rightarrow>
                  Inr (map (\<lambda>(i, p). p\<lparr>Response := tempresponse_Content tempresponse i\<rparr>)
                         (enumerate 0 processed))))"

text \<open>
  A Go map from RefID to slice is an association list with distinct keys; the order of the
  list is the order in which \<open>range\<close> happens to visit the map.
\<close>

fun batchRequest ::
    "('t, 'f) env \<Rightarrow> (string \<times> PiProcessedQuery list) list
     \<Rightarrow> (string \<times> PiProcessedQuery list) list result" where
  "batchRequest E [] = Inr []"
| "batchRequest E ((refID, processed) # rest) =
     (case batchRequest_RefID E processed of
        Inl e \<Rightarrow> Inl e
      | Inr processed' \<Rightarrow>
          (case batchRequest E rest of
             Inl e \<Rightarrow> Inl e
           | Inr rest' \<Rightarrow> Inr ((refID, processed') # rest')))"

subsection \<open>processBatchtoFrames\<close>

text \<open>
  The inner loop over the queries of one RefID, with \<open>subResponse.Frames\<close> as accumulator.
  The datasource is returned in every case, since a write to \<open>channelConstruct\<close> stays after a
  later panic.
\<close>

fun frames_loop ::
    "('t, 'f) env \<Rightarrow> string \<Rightarrow> Datasource \<Rightarrow> 'f Frame list \<Rightarrow> PiProcessedQuery list
     \<Rightarrow> Datasource \<times> 'f Frame list result" where
  "frames_loop E refID d frames [] = (d, Inr frames)"
| "frames_loop E refID d frames (q # qs) =
     (let Type = getTypeForWebID E (PiProcessedQuery.WebID q);
          DigitalState = getDigitalStateforWebID E (PiProcessedQuery.WebID q)
      in case call_getItems (Response q) of
           Inl e \<Rightarrow> (d, Inl e)
         | Inr items \<Rightarrow>
             (case convertItemsToDataFrame E (PiProcessedQuery.Label q) items Type DigitalState False of
                (None, err) \<Rightarrow> (d, Inl NilDereference)
              | (Some frame0, err) \<Rightarrow>
                  (case Meta frame0 of
                     None \<Rightarrow> (d, Inl NilDereference)
                   | Some meta0 \<Rightarrow>
                       (let meta = meta0\<lparr>ExecutedQueryString := Resource (BatchRequest q)\<rparr>;
                            frame = frame0\<lparr>Frame.RefID := refID, Meta := Some meta\<rparr>
                        in case err of
                             Some _ \<Rightarrow> frames_loop E refID d (frames @ [frame]) qs
                           | None \<Rightarrow>
                               if Streamable q then
                                 (let channeluuid = newUUID E (uuids_drawn d);
                                      channelURI = ''ds/'' @ UID q @ ''/'' @ channeluuid;
                                      channel = \<lparr>StreamChannelConstruct.WebID = PiProcessedQuery.WebID q,
                                                 StreamChannelConstruct.IntervalNanoSeconds =
                                                   PiProcessedQuery.IntervalNanoSeconds q\<rparr>;
                                      d' = d\<lparr>channelConstruct := (channelConstruct d)(channeluuid \<mapsto> channel),
                                             uuids_drawn := Suc (uuids_drawn d)\<rparr>;
                                      frame' = frame\<lparr>Meta := Some (meta\<lparr>Channel := channelURI\<rparr>)\<rparr>
                                  in frames_loop E refID d' (frames @ [frame']) qs)
                               else frames_loop E refID d (frames @ [frame]) qs))))"

fun processBatchtoFrames_loop ::
    "('t, 'f) env \<Rightarrow> Datasource \<Rightarrow> (string \<times> 'f DataResponse) list
     \<Rightarrow> (string \<times> PiProcessedQuery list) list
     \<Rightarrow> Datasource \<times> (string \<times> 'f DataResponse) list result" where
  "processBatchtoFrames_loop E d response [] = (d, Inr response)"
| "processBatchtoFrames_loop E d response ((refID, query) # rest) =
     (case frames_loop E refID d [] query of
        (d', Inl e) \<Rightarrow> (d', Inl e)
      | (d', Inr frames) \<Rightarrow>
          processBatchtoFrames_loop E d' (AList.update refID \<lparr>Frames = frames\<rparr> response) rest)"

definition processBatchtoFrames ::
    "('t, 'f) env \<Rightarrow> Datasource \<Rightarrow> (string \<times> PiProcessedQuery list) list
     \<Rightarrow> Datasource \<times> (string \<times> 'f DataResponse) list result" where
  "processBatchtoFrames E d processedQuery = processBatchtoFrames_loop E d [] processedQuery"

subsection \<open>QueryData\<close>

fun processQueries_loop ::
    "('t, 'f) env \<Rightarrow> Datasource \<Rightarrow> string \<Rightarrow> (string \<times> PiProcessedQuery list) list
     \<Rightarrow> 't DataQuery list \<Rightarrow> (string \<times> PiProcessedQuery list) list result" where
  "processQueries_loop E d datasourceUID processedQueries [] = Inr processedQueries"
| "processQueries_loop E d datasourceUID processedQueries (q # qs) =
     (case processQuery E d q datasourceUID of
        Inl e \<Rightarrow> Inl e
      | Inr r \<Rightarrow>
          processQueries_loop E d datasourceUID (AList.update (DataQuery.RefID q) r processedQueries) qs)"

definition QueryData ::
    "('t, 'f) env \<Rightarrow> Datasource \<Rightarrow> string \<Rightarrow> 't DataQuery list
     \<Rightarrow> Datasource \<times> (string \<times> 'f DataResponse) list result" where
  "QueryData E d datasourceUID Queries =
     (case processQueries_loop E d datasourceUID [] Queries of
        Inl e \<Rightarrow> (d, Inl e)
      | Inr processedQueries \<Rightarrow>
          (case batchRequest E processedQueries of
             Inl e \<Rightarrow> (d, Inl e)
           | Inr processedQueries_temp \<Rightarrow> processBatchtoFrames E d processedQueries_temp))"

section \<open>Example inputs\<close>

text \<open>
  Concrete collaborators and inputs on which the theorems below are instantiated. Instants
  are seconds since the epoch; the rendering table covers the two instants of the examples.
  The example decoder copies the host's fields and takes the payload \<open>pi\<close> as given.
\<close>

definition example_rfc3339 :: "nat \<Rightarrow> string" where
  "example_rfc3339 t = (if t = 0 then ''1970-01-01T00:00:00Z'' else ''1970-01-01T01:00:00Z'')"

definition example_getWebID :: "string \<Rightarrow> bool \<Rightarrow> string + string" where
  "example_getWebID path isPiPoint =
     (if path = ''Base|Missing'' then Inl ''404 Not Found'' else Inr (''W-'' @ path))"

definition example_convert ::
    "string \<Rightarrow> PiBatchContentItem list \<Rightarrow> string \<Rightarrow> bool \<Rightarrow> bool \<Rightarrow> (PiBatchContentItem list) Frame option \<times> string option" where
  "example_convert frameName items ty digitalState includeMeta =
     (Some \<lparr>Name = frameName, Fields = items, Frame.RefID = '''',
            Meta = Some \<lparr>ExecutedQueryString = '''', Channel = ''''\<rparr>\<rparr>, None)"

definition example_env ::
    "PIWebAPIQuery \<Rightarrow> ((string \<times> BatchSubRequest) list \<Rightarrow> string + json option)
     \<Rightarrow> (nat, PiBatchContentItem list) env" where
  "example_env pi api =
     \<lparr>rfc3339 = example_rfc3339,
      unmarshalQuery = (\<lambda>dq. Some \<lparr>Query.RefID = DataQuery.RefID dq,
                                    Query.QueryType = DataQuery.QueryType dq,
                                    Query.MaxDataPoints = DataQuery.MaxDataPoints dq,
                                    Query.Interval = DataQuery.Interval dq,
                                    Query.TimeRange = DataQuery.TimeRange dq,
                                    Pi = pi\<rparr>),
      getWebID = example_getWebID,
      apiBatchRequest = api,
      getTypeForWebID = (\<lambda>w. ''Float32''),
      getDigitalStateforWebID = (\<lambda>w. False),
      convertItemsToDataFrame = example_convert,
      newUUID = (\<lambda>n. ''uuid-'' @ show_nat n)\<rparr>"

definition example_Pi :: PIWebAPIQuery where
  "example_Pi =
     \<lparr>EnableStreaming_Enable = True, Expression = '''', Interpolate_Enable = False,
      IntervalMs = 0, IsPiPoint = False, PIWebAPIQuery.MaxDataPoints = 0,
      RecordedValues_Enable = False, Regex_Enable = False,
      Summary = \<lparr>Basis = '''', QuerySummary.Interval = '''', Nodata = '''', Types = []\<rparr>,
      Target = ''Base;Seg1;Seg2''\<rparr>"

definition example_DataQuery :: "nat DataQuery" where
  "example_DataQuery =
     \<lparr>DataQuery.RefID = ''A'', DataQuery.QueryType = '''', DataQuery.MaxDataPoints = 100,
      DataQuery.Interval = 1000, DataQuery.TimeRange = \<lparr>From = 0, To = 3600\<rparr>,
      JSON = Some (JObj [])\<rparr>"

definition example_Query :: "PIWebAPIQuery \<Rightarrow> nat Query" where
  "example_Query pi =
     \<lparr>Query.RefID = ''A'', Query.QueryType = '''', Query.MaxDataPoints = 100,
      Query.Interval = 1000, Query.TimeRange = \<lparr>From = 0, To = 3600\<rparr>, Pi = pi\<rparr>"

definition example_Datasource :: Datasource where
  "example_Datasource =
     \<lparr>settings_URL = ''https://pi/piwebapi'', channelConstruct = Map.empty, uuids_drawn = 0\<rparr>"

definition failing_api :: "(string \<times> BatchSubRequest) list \<Rightarrow> string + json option" where
  "failing_api batch = Inl ''connection refused''"

definition example_summary :: QuerySummary where
  "example_summary =
     \<lparr>Basis = ''EventWeighted'', QuerySummary.Interval = '''', Nodata = ''Null'',
      Types = [\<lparr>SummaryType.Label = ''Average'', SummaryType.Value = \<lparr>Expandable = False, SummaryTYpeValue.Value = ''Average''\<rparr>\<rparr>,
               \<lparr>SummaryType.Label = ''Maximum'', SummaryType.Value = \<lparr>Expandable = False, SummaryTYpeValue.Value = ''Maximum''\<rparr>\<rparr>]\<rparr>"

text \<open>
  A sub-response in the nested shape, and a server that answers every sub-request of a batch
  with it.
\<close>

definition example_item :: json where
  "example_item =
     JObj [(''Timestamp'', JStr ''2024-01-01T00:00:00Z''), (''Value'', JReal ''12.3''),
           (''Good'', JBool True)]"

definition example_nested_response :: json where
  "example_nested_response =
     JObj [(''Status'', JInt 200),
           (''Content'', JObj [(''Items'',
              JArr [JObj [(''WebId'', JStr ''W1''), (''UnitsAbbreviation'', JStr ''psi''),
                          (''Items'', JArr [example_item])]])])]"

definition example_api :: "(string \<times> BatchSubRequest) list \<Rightarrow> string + json option" where
  "example_api batch = Inr (Some (JObj (map (\<lambda>(k, r). (k, example_nested_response)) batch)))"

definition example_expression_Pi :: PIWebAPIQuery where
  "example_expression_Pi = example_Pi\<lparr>Expression := ''TagAvg(a b)&x=1''\<rparr>"

section \<open>Target expansion\<close>

lemma strings_Index_notin: "c \<notin> set s \<Longrightarrow> strings_Index s c = -1"
  by (induction s) auto

lemma strings_Index_in:
  "c \<in> set s \<Longrightarrow> strings_Index s c = int (length (takeWhile (\<lambda>x. x \<noteq> c) s))"
  by (induction s) (auto simp: Let_def)

lemma strings_Split_nonempty: "strings_Split s c \<noteq> []"
  by (induction s) (auto split: list.splits)

lemma strings_Split_notin: "c \<notin> set s \<Longrightarrow> strings_Split s c = [s]"
  by (induction s) auto

lemma strings_Split_append:
  "c \<notin> set a \<Longrightarrow> strings_Split (a @ c # b) c = a # strings_Split b c"
  by (induction a) auto

lemma strings_Split_join:
  "\<forall>s\<in>set (seg # segs). c \<notin> set s \<Longrightarrow>
   strings_Split (seg @ concat (map ((#) c) segs)) c = seg # segs"
proof (induction segs arbitrary: seg)
  case Nil
  then show ?case by (simp add: strings_Split_notin)
next
  case (Cons s segs)
  have "strings_Split (seg @ c # (s @ concat (map ((#) c) segs))) c
        = seg # strings_Split (s @ concat (map ((#) c) segs)) c"
    using Cons.prems by (intro strings_Split_append) simp
  moreover have "strings_Split (s @ concat (map ((#) c) segs)) c = s # segs"
    using Cons.prems by (intro Cons.IH) simp
  ultimately show ?case by simp
qed

lemma take_length_takeWhile: "take (length (takeWhile P s)) s = takeWhile P s"
  by (induction s) auto

lemma takeWhile_lt_length: "c \<in> set s \<Longrightarrow> length (takeWhile (\<lambda>x. x \<noteq> c) s) < length s"
  by (induction s) auto

lemma getBasePath_in:
  "CHR '';'' \<in> set (Target q) \<Longrightarrow>
   getBasePath q = Inr (takeWhile (\<lambda>x. x \<noteq> CHR '';'') (Target q))"
  by (simp add: getBasePath_def slice_to_def strings_Index_in take_length_takeWhile
      length_takeWhile_le)

lemma getBasePath_notin:
  "CHR '';'' \<notin> set (Target q) \<Longrightarrow> getBasePath q = Inl SliceBounds"
  by (simp add: getBasePath_def slice_to_def strings_Index_notin)

lemma getTargets_in:
  assumes "CHR '';'' \<in> set (Target q)"
  shows "getTargets q =
    Inr (strings_Split (tl (dropWhile (\<lambda>x. x \<noteq> CHR '';'') (Target q))) CHR '';'')"
proof -
  let ?n = "length (takeWhile (\<lambda>x. x \<noteq> CHR '';'') (Target q))"
  have idx: "strings_Index (Target q) CHR '';'' = int ?n"
    using assms by (rule strings_Index_in)
  have lt: "?n < length (Target q)"
    using assms by (rule takeWhile_lt_length)
  have "nat (int ?n + 1) = Suc ?n" by simp
  moreover have "drop (Suc ?n) (Target q) = tl (dropWhile (\<lambda>x. x \<noteq> CHR '';'') (Target q))"
    by (simp add: dropWhile_eq_drop drop_Suc tl_drop)
  ultimately show ?thesis
    using lt by (simp add: getTargets_def slice_from_def idx)
qed

lemma getTargets_notin:
  "CHR '';'' \<notin> set (Target q) \<Longrightarrow> getTargets q = Inr [Target q]"
  by (simp add: getTargets_def slice_from_def strings_Index_notin strings_Split_notin)

lemma getTargets_nonempty: "getTargets q = Inr ts \<Longrightarrow> ts \<noteq> []"
  by (cases "CHR '';'' \<in> set (Target q)")
     (auto simp: getTargets_in getTargets_notin strings_Split_nonempty)

text \<open>
  The loop of \<open>processQuery\<close> when the base path exists: it returns, it appends one entry for
  each target whose path resolves, in order, and every appended entry is built from its
  target as the source builds it.
\<close>

lemma processQuery_loop_props:
  assumes "getBasePath (Pi q) = Inr base"
  shows "\<exists>new. processQuery_loop E d q uid response ts = Inr (response @ new)
     \<and> map PiProcessedQuery.Label new =
         filter (\<lambda>t. \<not> isl (getWebID E (base @ (if IsPiPoint (Pi q) then [CHR 0x5C] else ''|'') @ t)
                                (IsPiPoint (Pi q)))) ts
     \<and> (\<forall>p\<in>set new.
           FullTargetPath p =
             base @ (if IsPiPoint (Pi q) then [CHR 0x5C] else ''|'') @ PiProcessedQuery.Label p
         \<and> getWebID E (FullTargetPath p) (IsPiPoint (Pi q)) = Inr (PiProcessedQuery.WebID p)
         \<and> BatchRequest p =
             \<lparr>Method = ''GET'',
              Resource = settings_URL d @ getQueryBaseURL (rfc3339 E) q @ ''&webid=''
                         @ PiProcessedQuery.WebID p\<rparr>
         \<and> Streamable p = isStreamable q
         \<and> Response p = None)"
    (is "\<exists>new. _ \<and> _ = filter ?ok ts \<and> (\<forall>p\<in>set new. ?good p)")
proof (induction ts arbitrary: response)
  case Nil
  show ?case by simp
next
  case (Cons t ts)
  let ?path = "base @ (if IsPiPoint (Pi q) then [CHR 0x5C] else ''|'') @ t"
  show ?case
  proof (cases "getWebID E ?path (IsPiPoint (Pi q))")
    case (Inl err)
    from Cons.IH[of response] obtain new where
      new: "processQuery_loop E d q uid response ts = Inr (response @ new)"
           "map PiProcessedQuery.Label new = filter ?ok ts" "\<forall>p\<in>set new. ?good p"
      by blast
    have step: "processQuery_loop E d q uid response (t # ts)
                = processQuery_loop E d q uid response ts"
      using Inl assms by (simp add: Let_def split: if_splits)
    have a: "processQuery_loop E d q uid response (t # ts) = Inr (response @ new)"
      using step new(1) by (simp only:)
    have "\<not> ?ok t" using Inl by simp
    then have b: "map PiProcessedQuery.Label new = filter ?ok (t # ts)"
      using new(2) by simp
    show ?thesis
      by (intro exI[of _ new] conjI a b new(3))
  next
    case (Inr w)
    define pq where "pq =
       \<lparr>PiProcessedQuery.Label = t, PiProcessedQuery.WebID = w, UID = uid,
        PiProcessedQuery.IntervalNanoSeconds = Query.Interval q,
        IsPIPoint = IsPiPoint (Pi q), Streamable = isStreamable q,
        FullTargetPath = ?path, ResponseUnits = '''',
        BatchRequest = \<lparr>Method = ''GET'',
                        Resource = settings_URL d @ getQueryBaseURL (rfc3339 E) q
                                   @ ''&webid='' @ w\<rparr>,
        Response = None\<rparr>"
    from Cons.IH[of "response @ [pq]"] obtain new where
      new: "processQuery_loop E d q uid (response @ [pq]) ts = Inr ((response @ [pq]) @ new)"
           "map PiProcessedQuery.Label new = filter ?ok ts" "\<forall>p\<in>set new. ?good p"
      by blast
    have step: "processQuery_loop E d q uid response (t # ts)
                = processQuery_loop E d q uid (response @ [pq]) ts"
      using Inr assms by (simp add: pq_def Let_def split: if_splits)
    have good: "?good pq"
      using Inr by (simp add: pq_def split: if_splits)
    have lab: "PiProcessedQuery.Label pq = t" by (simp add: pq_def)
    have a: "processQuery_loop E d q uid response (t # ts) = Inr (response @ (pq # new))"
      using step new(1) by (simp only: append_assoc append_Cons append_Nil)
    have "?ok t" using Inr by simp
    then have b: "map PiProcessedQuery.Label (pq # new) = filter ?ok (t # ts)"
      using new(2) lab by simp
    have c: "\<forall>p\<in>set (pq # new). ?good p"
      using good new(3) by (metis set_ConsD)
    show ?thesis
      by (intro exI[of _ "pq # new"] conjI a b c)
  qed
qed

lemma processQuery_loop_panics:
  "getBasePath (Pi q) = Inl e \<Longrightarrow> ts \<noteq> [] \<Longrightarrow> processQuery_loop E d q uid response ts = Inl e"
  by (cases ts) simp_all

lemma processQuery_returns:
  assumes "unmarshalQuery E query = Some q" and "CHR '';'' \<in> set (Target (Pi q))"
  shows "\<exists>pqs. processQuery E d query uid = Inr pqs"
proof -
  obtain new where "processQuery_loop E d q uid []
      (strings_Split (tl (dropWhile (\<lambda>x. x \<noteq> CHR '';'') (Target (Pi q)))) CHR '';'') = Inr ([] @ new)"
    using processQuery_loop_props[OF getBasePath_in[OF assms(2)]] by blast
  then show ?thesis
    using assms by (simp add: processQuery_def getTargets_in)
qed

lemma base_of_joined:
  assumes "c \<notin> set base"
  shows "takeWhile (\<lambda>x. x \<noteq> c) (base @ concat (map ((#) c) (s # ss))) = base"
    and "tl (dropWhile (\<lambda>x. x \<noteq> c) (base @ concat (map ((#) c) (s # ss))))
         = s @ concat (map ((#) c) ss)"
proof -
  have all: "\<forall>x\<in>set base. x \<noteq> c" using assms by auto
  have "takeWhile (\<lambda>x. x \<noteq> c) (base @ c # (s @ concat (map ((#) c) ss))) = base"
    using all by simp
  then show "takeWhile (\<lambda>x. x \<noteq> c) (base @ concat (map ((#) c) (s # ss))) = base"
    by simp
  have "dropWhile (\<lambda>x. x \<noteq> c) (base @ c # (s @ concat (map ((#) c) ss)))
        = c # (s @ concat (map ((#) c) ss))"
    using all by simp
  then show "tl (dropWhile (\<lambda>x. x \<noteq> c) (base @ concat (map ((#) c) (s # ss))))
             = s @ concat (map ((#) c) ss)"
    by simp
qed

text \<open>
  C9. Target expansion is total exactly when the target contains a \<open>;\<close>. With one, the index
  of the first \<open>;\<close> and the index past it lie within the string, \<open>getBasePath\<close> returns the
  text before it and \<open>getTargets\<close> the split of the text after it. Without one,
  \<open>getBasePath\<close> panics on its slice, and so \<open>processQuery\<close> returns for a decoded query if
  and only if its target contains a \<open>;\<close>.
\<close>

theorem target_expansion_needs_semicolon:
  "(CHR '';'' \<in> set (Target (Pi q)) \<longrightarrow>
        0 \<le> strings_Index (Target (Pi q)) CHR '';''
      \<and> strings_Index (Target (Pi q)) CHR '';'' + 1 \<le> int (length (Target (Pi q)))
      \<and> getBasePath (Pi q) = Inr (takeWhile (\<lambda>x. x \<noteq> CHR '';'') (Target (Pi q)))
      \<and> getTargets (Pi q) =
          Inr (strings_Split (tl (dropWhile (\<lambda>x. x \<noteq> CHR '';'') (Target (Pi q)))) CHR '';''))
   \<and> (CHR '';'' \<notin> set (Target (Pi q)) \<longrightarrow> getBasePath (Pi q) = Inl SliceBounds)
   \<and> (unmarshalQuery E query = Some q \<longrightarrow>
        ((\<exists>r. processQuery E d query uid = Inr r) \<longleftrightarrow> CHR '';'' \<in> set (Target (Pi q))))"
proof (intro conjI impI)
  assume semi: "CHR '';'' \<in> set (Target (Pi q))"
  show "0 \<le> strings_Index (Target (Pi q)) CHR '';''"
    using semi by (simp add: strings_Index_in)
  show "strings_Index (Target (Pi q)) CHR '';'' + 1 \<le> int (length (Target (Pi q)))"
    using semi takeWhile_lt_length[OF semi] by (simp add: strings_Index_in)
  show "getBasePath (Pi q) = Inr (takeWhile (\<lambda>x. x \<noteq> CHR '';'') (Target (Pi q)))"
    using semi by (rule getBasePath_in)
  show "getTargets (Pi q) =
          Inr (strings_Split (tl (dropWhile (\<lambda>x. x \<noteq> CHR '';'') (Target (Pi q)))) CHR '';'')"
    using semi by (rule getTargets_in)
next
  assume "CHR '';'' \<notin> set (Target (Pi q))"
  then show "getBasePath (Pi q) = Inl SliceBounds" by (rule getBasePath_notin)
next
  assume dec: "unmarshalQuery E query = Some q"
  show "(\<exists>r. processQuery E d query uid = Inr r) \<longleftrightarrow> CHR '';'' \<in> set (Target (Pi q))"
  proof (cases "CHR '';'' \<in> set (Target (Pi q))")
    case True
    obtain new where "processQuery_loop E d q uid []
        (strings_Split (tl (dropWhile (\<lambda>x. x \<noteq> CHR '';'') (Target (Pi q)))) CHR '';'') = Inr ([] @ new)"
      using processQuery_loop_props[OF getBasePath_in[OF True]] by blast
    then show ?thesis
      using True dec by (simp add: processQuery_def getTargets_in)
  next
    case False
    have "processQuery E d query uid = Inl SliceBounds"
      using False dec
      by (simp add: processQuery_def getTargets_notin processQuery_loop_panics getBasePath_notin)
    then show ?thesis using False by simp
  qed
qed

theorem target_expansion_needs_semicolon_witness:
  "CHR '';'' \<in> set (Target example_Pi)
   \<and> strings_Index (Target example_Pi) CHR '';'' = 4
   \<and> getBasePath example_Pi = Inr ''Base''
   \<and> getTargets example_Pi = Inr [''Seg1'', ''Seg2'']
   \<and> \<not> isl (processQuery (example_env example_Pi failing_api) example_Datasource
               example_DataQuery ''uid'')
   \<and> CHR '';'' \<notin> set (Target (example_Pi\<lparr>Target := ''Base''\<rparr>))
   \<and> getBasePath (example_Pi\<lparr>Target := ''Base''\<rparr>) = Inl SliceBounds
   \<and> isl (processQuery (example_env (example_Pi\<lparr>Target := ''Base''\<rparr>) failing_api)
             example_Datasource example_DataQuery ''uid'')"
proof -
  let ?q1 = "example_Query example_Pi"
  let ?q2 = "example_Query (example_Pi\<lparr>Target := ''Base''\<rparr>)"
  have u1: "unmarshalQuery (example_env example_Pi failing_api) example_DataQuery = Some ?q1"
    by (simp add: example_env_def example_DataQuery_def example_Query_def)
  have u2: "unmarshalQuery (example_env (example_Pi\<lparr>Target := ''Base''\<rparr>) failing_api)
              example_DataQuery = Some ?q2"
    by (simp add: example_env_def example_DataQuery_def example_Query_def)
  have t1: "Target (Pi ?q1) = ''Base;Seg1;Seg2''" and t2: "Target (Pi ?q2) = ''Base''"
    and p1: "Pi ?q1 = example_Pi" and p2: "Pi ?q2 = example_Pi\<lparr>Target := ''Base''\<rparr>"
    by (simp_all add: example_Query_def example_Pi_def)
  note a = target_expansion_needs_semicolon
             [of ?q1 "example_env example_Pi failing_api" example_DataQuery example_Datasource "''uid''"]
  note b = target_expansion_needs_semicolon
             [of ?q2 "example_env (example_Pi\<lparr>Target := ''Base''\<rparr>) failing_api"
                 example_DataQuery example_Datasource "''uid''"]
  have "\<exists>r. processQuery (example_env example_Pi failing_api) example_Datasource
               example_DataQuery ''uid'' = Inr r"
    using a u1 t1 by simp
  then have i1: "\<not> isl (processQuery (example_env example_Pi failing_api) example_Datasource
               example_DataQuery ''uid'')"
    by auto
  have "\<not> (\<exists>r. processQuery (example_env (example_Pi\<lparr>Target := ''Base''\<rparr>) failing_api)
               example_Datasource example_DataQuery ''uid'' = Inr r)"
    using b u2 t2 by simp
  then have i2: "isl (processQuery (example_env (example_Pi\<lparr>Target := ''Base''\<rparr>) failing_api)
               example_Datasource example_DataQuery ''uid'')"
    by (cases "processQuery (example_env (example_Pi\<lparr>Target := ''Base''\<rparr>) failing_api)
               example_Datasource example_DataQuery ''uid''") auto
  have t: "Target example_Pi = ''Base;Seg1;Seg2''" by (simp add: example_Pi_def)
  show ?thesis
    using a b t1 t2 i1 i2 t unfolding p1 p2 by simp
qed

text \<open>
  Every target that contains a \<open>;\<close> has the form \<open>base;seg\<^sub>1;...;seg\<^sub>n\<close> with \<open>n \<ge> 1\<close> and no
  \<open>;\<close> inside the base or a segment.
\<close>

lemma strings_Split_segments: "\<forall>seg\<in>set (strings_Split s c). c \<notin> set seg"
  by (induction s) (auto split: list.splits)

lemma strings_Split_concat: "concat (map ((#) c) (strings_Split s c)) = c # s"
proof (induction s)
  case Nil
  show ?case by simp
next
  case (Cons x xs)
  show ?case
  proof (cases "x = c")
    case True
    then show ?thesis using Cons.IH by simp
  next
    case False
    obtain seg segs where s: "strings_Split xs c = seg # segs"
      using strings_Split_nonempty[of xs c] by (cases "strings_Split xs c") auto
    then show ?thesis using Cons.IH False by simp
  qed
qed

lemma target_decomposition:
  assumes "CHR '';'' \<in> set t"
  shows "\<exists>base segs. t = base @ concat (map ((#) CHR '';'') segs) \<and> segs \<noteq> []
           \<and> CHR '';'' \<notin> set base \<and> (\<forall>seg\<in>set segs. CHR '';'' \<notin> set seg)"
proof -
  let ?P = "\<lambda>x. x \<noteq> CHR '';''"
  have "dropWhile ?P t \<noteq> []"
    using assms by simp
  moreover have "dropWhile ?P t \<noteq> [] \<Longrightarrow> hd (dropWhile ?P t) = CHR '';''"
    using hd_dropWhile[of ?P t] by simp
  ultimately have d: "dropWhile ?P t = CHR '';'' # tl (dropWhile ?P t)"
    by (cases "dropWhile ?P t") auto
  let ?segs = "strings_Split (tl (dropWhile ?P t)) CHR '';''"
  have "t = takeWhile ?P t @ dropWhile ?P t" by simp
  also have "dropWhile ?P t = concat (map ((#) CHR '';'') ?segs)"
    using d by (simp only: strings_Split_concat)
  finally have "t = takeWhile ?P t @ concat (map ((#) CHR '';'') ?segs)" .
  moreover have "CHR '';'' \<notin> set (takeWhile ?P t)"
    by (auto dest: set_takeWhileD)
  ultimately show ?thesis
    using strings_Split_nonempty strings_Split_segments by blast
qed

text \<open>
  C5. A target \<open>base;seg\<^sub>1;...;seg\<^sub>n\<close> with \<open>n \<ge> 1\<close>, no \<open>;\<close> inside the base or a segment
  (the form of every target that contains a \<open>;\<close>), and every path resolving, gives one
  processed query per segment, in order, labelled with the segment and with full path
  \<open>base\seg\<close> for a point query and \<open>base|seg\<close> otherwise.
\<close>

theorem processQuery_one_entry_per_segment:
  assumes "unmarshalQuery E query = Some q"
    and "Target (Pi q) = base @ concat (map ((#) CHR '';'') segs)"
    and "segs \<noteq> []"
    and "CHR '';'' \<notin> set base"
    and "\<forall>seg\<in>set segs. CHR '';'' \<notin> set seg"
    and "\<forall>seg\<in>set segs.
           \<not> isl (getWebID E (base @ (if IsPiPoint (Pi q) then [CHR 0x5C] else ''|'') @ seg)
                    (IsPiPoint (Pi q)))"
  shows "map_sum id (map FullTargetPath) (processQuery E d query uid) =
           Inr (map (\<lambda>seg. base @ (if IsPiPoint (Pi q) then [CHR 0x5C] else ''|'') @ seg) segs)
       \<and> map_sum id (map PiProcessedQuery.Label) (processQuery E d query uid) = Inr segs
       \<and> map_sum id length (processQuery E d query uid) = Inr (length segs)"
proof -
  obtain s ss where segs: "segs = s # ss"
    using assms(3) by (cases segs) auto
  have semi: "CHR '';'' \<in> set (Target (Pi q))"
    by (simp add: assms(2) segs)
  have bp: "getBasePath (Pi q) = Inr base"
    using getBasePath_in[OF semi] base_of_joined(1)[OF assms(4)] by (simp add: assms(2) segs)
  have "strings_Split (s @ concat (map ((#) CHR '';'') ss)) CHR '';'' = s # ss"
    using assms(5) by (intro strings_Split_join) (simp add: segs)
  then have gt: "getTargets (Pi q) = Inr segs"
    using getTargets_in[OF semi] base_of_joined(2)[OF assms(4)] by (simp add: assms(2) segs)
  let ?sep = "if IsPiPoint (Pi q) then [CHR 0x5C] else ''|''"
  obtain new where
    new: "processQuery_loop E d q uid [] segs = Inr ([] @ new)"
         "map PiProcessedQuery.Label new =
            filter (\<lambda>t. \<not> isl (getWebID E (base @ ?sep @ t) (IsPiPoint (Pi q)))) segs"
         "\<forall>p\<in>set new. FullTargetPath p = base @ ?sep @ PiProcessedQuery.Label p"
    using processQuery_loop_props[OF bp, of E d uid "[]" segs] by blast
  have res: "processQuery E d query uid = Inr new"
    using new(1) by (simp add: processQuery_def assms(1) gt)
  have labels: "map PiProcessedQuery.Label new = segs"
    using new(2) assms(6) by simp
  have "map FullTargetPath new = map (\<lambda>l. base @ ?sep @ l) (map PiProcessedQuery.Label new)"
    using new(3) by simp
  then have paths: "map FullTargetPath new = map (\<lambda>seg. base @ ?sep @ seg) segs"
    by (simp only: labels)
  have "length new = length segs"
    using labels by (metis length_map)
  then show ?thesis
    using paths labels by (simp add: res)
qed

theorem processQuery_one_entry_per_segment_witness:
  "map_sum id (map FullTargetPath)
     (processQuery (example_env example_Pi failing_api) example_Datasource example_DataQuery ''uid'')
   = Inr [''Base|Seg1'', ''Base|Seg2'']
   \<and> map_sum id length
     (processQuery (example_env example_Pi failing_api) example_Datasource example_DataQuery ''uid'')
   = Inr 2"
proof -
  let ?E = "example_env example_Pi failing_api"
  have u: "unmarshalQuery ?E example_DataQuery = Some (example_Query example_Pi)"
    by (simp add: example_env_def example_DataQuery_def example_Query_def)
  have t: "Target (Pi (example_Query example_Pi))
           = ''Base'' @ concat (map ((#) CHR '';'') [''Seg1'', ''Seg2''])"
    by (simp add: example_Query_def example_Pi_def)
  have r: "\<forall>seg\<in>set [''Seg1'', ''Seg2''].
           \<not> isl (getWebID ?E (''Base'' @ (if IsPiPoint (Pi (example_Query example_Pi))
                                            then [CHR 0x5C] else ''|'') @ seg)
                    (IsPiPoint (Pi (example_Query example_Pi))))"
    by (simp add: example_env_def example_getWebID_def example_Query_def example_Pi_def)
  have p: "IsPiPoint (Pi (example_Query example_Pi)) = False"
    by (simp add: example_Query_def example_Pi_def)
  show ?thesis
    using processQuery_one_entry_per_segment[OF u t _ _ _ r, of example_Datasource "''uid''"]
    by (simp add: p)
qed

text \<open>
  C7. When the target expands, the processed queries are exactly those of the segments whose
  path resolves, in the order of the segments: a segment whose resolution fails is left out
  and the segments after it are still resolved. Every entry carries a \<open>GET\<close> sub-request for
  its own identifier.
\<close>

theorem failed_resolution_drops_only_its_segment:
  assumes "unmarshalQuery E query = Some q"
    and "getBasePath (Pi q) = Inr base"
    and "getTargets (Pi q) = Inr segs"
  shows "map_sum id (map PiProcessedQuery.Label) (processQuery E d query uid) =
           Inr (filter (\<lambda>seg. \<not> isl (getWebID E
                    (base @ (if IsPiPoint (Pi q) then [CHR 0x5C] else ''|'') @ seg)
                    (IsPiPoint (Pi q)))) segs)
       \<and> (\<forall>pqs. processQuery E d query uid = Inr pqs \<longrightarrow>
            (\<forall>p\<in>set pqs.
                 getWebID E (FullTargetPath p) (IsPiPoint (Pi q)) = Inr (PiProcessedQuery.WebID p)
               \<and> Method (BatchRequest p) = ''GET''
               \<and> Resource (BatchRequest p) =
                   settings_URL d @ getQueryBaseURL (rfc3339 E) q @ ''&webid=''
                   @ PiProcessedQuery.WebID p))"
proof -
  let ?sep = "if IsPiPoint (Pi q) then [CHR 0x5C] else ''|''"
  obtain new where
    new: "processQuery_loop E d q uid [] segs = Inr ([] @ new)"
         "map PiProcessedQuery.Label new =
            filter (\<lambda>t. \<not> isl (getWebID E (base @ ?sep @ t) (IsPiPoint (Pi q)))) segs"
         "\<forall>p\<in>set new.
              getWebID E (FullTargetPath p) (IsPiPoint (Pi q)) = Inr (PiProcessedQuery.WebID p)
            \<and> BatchRequest p =
                \<lparr>Method = ''GET'',
                 Resource = settings_URL d @ getQueryBaseURL (rfc3339 E) q @ ''&webid=''
                            @ PiProcessedQuery.WebID p\<rparr>"
    using processQuery_loop_props[OF assms(2), of E d uid "[]" segs] by blast
  have res: "processQuery E d query uid = Inr new"
    using new(1) by (simp add: processQuery_def assms(1) assms(3))
  have "\<forall>p\<in>set new.
            getWebID E (FullTargetPath p) (IsPiPoint (Pi q)) = Inr (PiProcessedQuery.WebID p)
          \<and> Method (BatchRequest p) = ''GET''
          \<and> Resource (BatchRequest p) =
              settings_URL d @ getQueryBaseURL (rfc3339 E) q @ ''&webid=''
              @ PiProcessedQuery.WebID p"
    using new(3) by simp
  then show ?thesis
    using new(2) by (simp add: res)
qed

theorem failed_resolution_drops_only_its_segment_witness:
  "isl (example_getWebID ''Base|Missing'' False)
   \<and> map_sum id (map PiProcessedQuery.Label)
       (processQuery (example_env (example_Pi\<lparr>Target := ''Base;Seg1;Missing;Seg2''\<rparr>) failing_api)
          example_Datasource example_DataQuery ''uid'')
     = Inr [''Seg1'', ''Seg2'']"
proof -
  let ?pi = "example_Pi\<lparr>Target := ''Base;Seg1;Missing;Seg2''\<rparr>"
  let ?E = "example_env ?pi failing_api"
  have u: "unmarshalQuery ?E example_DataQuery = Some (example_Query ?pi)"
    by (simp add: example_env_def example_DataQuery_def example_Query_def)
  have semi: "CHR '';'' \<in> set (Target (Pi (example_Query ?pi)))"
    by (simp add: example_Query_def)
  have b: "getBasePath (Pi (example_Query ?pi)) = Inr ''Base''"
    unfolding getBasePath_in[OF semi] by (simp add: example_Query_def)
  have t: "getTargets (Pi (example_Query ?pi)) = Inr [''Seg1'', ''Missing'', ''Seg2'']"
    unfolding getTargets_in[OF semi] by (simp add: example_Query_def)
  have g: "getWebID ?E = example_getWebID" by (simp add: example_env_def)
  have p: "IsPiPoint (Pi (example_Query ?pi)) = False"
    by (simp add: example_Query_def example_Pi_def)
  show ?thesis
    using failed_resolution_drops_only_its_segment[OF u b t, of example_Datasource "''uid''"]
    by (simp add: g p example_getWebID_def)
qed

section \<open>Streaming\<close>

lemma processQuery_Streamable:
  assumes "unmarshalQuery E query = Some q" and "processQuery E d query uid = Inr pqs"
  shows "\<forall>p\<in>set pqs. Streamable p = isStreamable q"
proof (cases "CHR '';'' \<in> set (Target (Pi q))")
  case True
  obtain new where
    "processQuery_loop E d q uid []
       (strings_Split (tl (dropWhile (\<lambda>x. x \<noteq> CHR '';'') (Target (Pi q)))) CHR '';'') = Inr ([] @ new)"
    and "\<forall>p\<in>set new. Streamable p = isStreamable q"
    using processQuery_loop_props[OF getBasePath_in[OF True]] by blast
  then show ?thesis
    using assms True by (simp add: processQuery_def getTargets_in)
next
  case False
  have "processQuery E d query uid = Inl SliceBounds"
    using False assms(1)
    by (simp add: processQuery_def getTargets_notin processQuery_loop_panics getBasePath_notin)
  then show ?thesis using assms(2) by simp
qed

lemma processQuery_undecoded: "unmarshalQuery E query = None \<Longrightarrow> processQuery E d query uid = Inr []"
  by (simp add: processQuery_def)

lemma batchRequest_RefID_Streamable:
  assumes "batchRequest_RefID E pqs = Inr pqs'"
  shows "map Streamable pqs' = map Streamable pqs"
proof -
  have m: "map Streamable (map (\<lambda>(i, p). p\<lparr>Response := f i\<rparr>) (enumerate n pqs)) = map Streamable pqs"
    for f :: "nat \<Rightarrow> PiBatchData option" and n
    by (induction pqs arbitrary: n) simp_all
  show ?thesis
    using assms m
    by (auto simp: batchRequest_RefID_def Let_def split: sum.splits if_splits)
qed

lemma frames_loop_no_channel:
  "\<forall>p\<in>set qs. \<not> Streamable p \<Longrightarrow> fst (frames_loop E refID d frames qs) = d"
proof (induction qs arbitrary: frames)
  case Nil
  show ?case by simp
next
  case (Cons q qs)
  then have ih: "\<And>fr. fst (frames_loop E refID d fr qs) = d" and ns: "\<not> Streamable q"
    by simp_all
  show ?case
    using ns by (simp add: Let_def ih split: sum.splits prod.splits option.splits)
qed

text \<open>No entry of the map is streamable.\<close>

lemma AList_update_set: "set (AList.update k v al) \<subseteq> insert (k, v) (set al)"
  by (induction al) auto

lemma processQueries_loop_not_streamable:
  assumes "\<forall>query\<in>set Queries. \<forall>q. unmarshalQuery E query = Some q \<longrightarrow> \<not> isStreamable q"
    and "\<forall>(k, pqs)\<in>set acc. \<forall>p\<in>set pqs. \<not> Streamable p"
    and "processQueries_loop E d uid acc Queries = Inr al"
  shows "\<forall>(k, pqs)\<in>set al. \<forall>p\<in>set pqs. \<not> Streamable p"
  using assms
proof (induction Queries arbitrary: acc)
  case Nil
  then show ?case by simp
next
  case (Cons query Queries)
  from Cons.prems(3) obtain r where
    r: "processQuery E d query uid = Inr r"
    and rest: "processQueries_loop E d uid (AList.update (DataQuery.RefID query) r acc) Queries = Inr al"
    by (auto split: sum.splits)
  have "\<forall>p\<in>set r. \<not> Streamable p"
  proof (cases "unmarshalQuery E query")
    case None
    then show ?thesis using r by (simp add: processQuery_undecoded)
  next
    case (Some q)
    then show ?thesis
      using processQuery_Streamable[OF Some r] Cons.prems(1) by simp
  qed
  then have "\<forall>(k, pqs)\<in>set (AList.update (DataQuery.RefID query) r acc). \<forall>p\<in>set pqs. \<not> Streamable p"
    using Cons.prems(2) AList_update_set[of "DataQuery.RefID query" r acc] by blast
  then show ?case
    using Cons.IH[OF _ _ rest] Cons.prems(1) by simp
qed

lemma batchRequest_not_streamable:
  assumes "batchRequest E al = Inr al'"
    and "\<forall>(k, pqs)\<in>set al. \<forall>p\<in>set pqs. \<not> Streamable p"
  shows "\<forall>(k, pqs)\<in>set al'. \<forall>p\<in>set pqs. \<not> Streamable p"
  using assms
proof (induction al arbitrary: al')
  case Nil
  then show ?case by simp
next
  case (Cons a al)
  obtain k pqs where a: "a = (k, pqs)" by (cases a)
  from Cons.prems(1) obtain pqs' rest' where
    one: "batchRequest_RefID E pqs = Inr pqs'" and rest: "batchRequest E al = Inr rest'"
    and al': "al' = (k, pqs') # rest'"
    by (auto simp: a split: sum.splits)
  have "set (map Streamable pqs') = set (map Streamable pqs)"
    using batchRequest_RefID_Streamable[OF one] by simp
  then have "\<forall>p\<in>set pqs'. \<not> Streamable p"
    using Cons.prems(2) by (auto simp: a image_iff)
  moreover have "\<forall>(k, pqs)\<in>set rest'. \<forall>p\<in>set pqs. \<not> Streamable p"
    using Cons.IH[OF rest] Cons.prems(2) by simp
  ultimately show ?case by (simp add: al')
qed

lemma processBatchtoFrames_loop_no_channel:
  "\<forall>(k, pqs)\<in>set al. \<forall>p\<in>set pqs. \<not> Streamable p \<Longrightarrow>
   fst (processBatchtoFrames_loop E d response al) = d"
proof (induction al arbitrary: response)
  case Nil
  show ?case by simp
next
  case (Cons a al)
  obtain k pqs where a: "a = (k, pqs)" by (cases a)
  have "fst (frames_loop E k d [] pqs) = d"
    using Cons.prems by (intro frames_loop_no_channel) (simp add: a)
  then show ?case
    using Cons.IH Cons.prems by (auto simp: a split: prod.splits sum.splits)
qed

text \<open>
  C10. A query with a non-empty expression is not streamable, whatever its streaming flag;
  every processed query derived from it has \<open>Streamable = False\<close>, before and after the batch
  call; the frame loop over its processed queries leaves the datasource as it was (no channel
  is registered and no identifier is drawn); and a request made of such queries only leaves
  the datasource as it was.
\<close>

theorem expression_query_mints_no_channel:
  "(Expression (Pi q) \<noteq> '''' \<longrightarrow> \<not> isStreamable q)
   \<and> (Expression (Pi q) \<noteq> '''' \<longrightarrow> unmarshalQuery E query = Some q \<longrightarrow>
        processQuery E d query uid = Inr pqs \<longrightarrow>
          (\<forall>p\<in>set pqs. \<not> Streamable p)
        \<and> (batchRequest_RefID E pqs = Inr pqs' \<longrightarrow>
              (\<forall>p\<in>set pqs'. \<not> Streamable p)
            \<and> fst (frames_loop E refID d0 frames pqs') = d0))
   \<and> ((\<forall>query\<in>set Queries. \<forall>q. unmarshalQuery E query = Some q \<longrightarrow> Expression (Pi q) \<noteq> '''')
        \<longrightarrow> fst (QueryData E d uid Queries) = d)"
proof (intro conjI impI)
  assume "Expression (Pi q) \<noteq> ''''"
  then show "\<not> isStreamable q" by (simp add: isStreamable_def isExpression_def)
next
  assume e: "Expression (Pi q) \<noteq> ''''" and u: "unmarshalQuery E query = Some q"
    and p: "processQuery E d query uid = Inr pqs"
  show ns: "\<forall>p\<in>set pqs. \<not> Streamable p"
    using processQuery_Streamable[OF u p] e by (simp add: isStreamable_def isExpression_def)
  {
    assume b: "batchRequest_RefID E pqs = Inr pqs'"
    have "set (map Streamable pqs') = set (map Streamable pqs)"
      using batchRequest_RefID_Streamable[OF b] by simp
    then show ns': "\<forall>p\<in>set pqs'. \<not> Streamable p"
      using ns by (auto simp: image_iff)
    show "fst (frames_loop E refID d0 frames pqs') = d0"
      using ns' by (rule frames_loop_no_channel)
  }
next
  assume all: "\<forall>query\<in>set Queries. \<forall>q. unmarshalQuery E query = Some q \<longrightarrow> Expression (Pi q) \<noteq> ''''"
  then have all': "\<forall>query\<in>set Queries. \<forall>q. unmarshalQuery E query = Some q \<longrightarrow> \<not> isStreamable q"
    by (simp add: isStreamable_def isExpression_def)
  show "fst (QueryData E d uid Queries) = d"
  proof (cases "processQueries_loop E d uid [] Queries")
    case (Inl e)
    then show ?thesis by (simp add: QueryData_def)
  next
    case (Inr al)
    have inv: "\<forall>(k, pqs)\<in>set al. \<forall>p\<in>set pqs. \<not> Streamable p"
      using processQueries_loop_not_streamable[OF all' _ Inr] by simp
    show ?thesis
    proof (cases "batchRequest E al")
      case (Inl e)
      then show ?thesis using Inr by (simp add: QueryData_def)
    next
      case r: (Inr al')
      have "\<forall>(k, pqs)\<in>set al'. \<forall>p\<in>set pqs. \<not> Streamable p"
        using batchRequest_not_streamable[OF r inv] .
      then show ?thesis
        using Inr r
        by (simp add: QueryData_def processBatchtoFrames_def processBatchtoFrames_loop_no_channel)
    qed
  qed
qed

theorem expression_query_mints_no_channel_witness:
  "Expression example_expression_Pi \<noteq> ''''
   \<and> EnableStreaming_Enable example_expression_Pi
   \<and> \<not> isStreamable (example_Query example_expression_Pi)
   \<and> map_sum id (list_ex Streamable)
       (processQuery (example_env example_expression_Pi example_api) example_Datasource
          example_DataQuery ''uid'') = Inr False
   \<and> fst (QueryData (example_env example_expression_Pi example_api) example_Datasource ''uid''
            [example_DataQuery]) = example_Datasource"
proof -
  let ?E = "example_env example_expression_Pi example_api"
  let ?Q = "example_Query example_expression_Pi"
  have u: "unmarshalQuery ?E example_DataQuery = Some ?Q"
    by (simp add: example_env_def example_DataQuery_def example_Query_def)
  have e: "Expression (Pi ?Q) \<noteq> ''''" and s: "EnableStreaming_Enable example_expression_Pi"
    and p: "Pi ?Q = example_expression_Pi"
    by (simp_all add: example_Query_def example_expression_Pi_def example_Pi_def)
  have semi: "CHR '';'' \<in> set (Target (Pi ?Q))"
    by (simp add: example_Query_def example_expression_Pi_def example_Pi_def)
  obtain pqs where pqs: "processQuery ?E example_Datasource example_DataQuery ''uid'' = Inr pqs"
    using processQuery_returns[OF u semi] by blast
  note t = expression_query_mints_no_channel
             [of ?Q ?E example_DataQuery example_Datasource "''uid''" pqs _ _ _ _ "[example_DataQuery]"]
  have "\<forall>p\<in>set pqs. \<not> Streamable p"
    using t e u pqs by blast
  then have l: "list_ex Streamable pqs = False"
    by (simp add: list_ex_iff)
  have "fst (QueryData ?E example_Datasource ''uid'' [example_DataQuery]) = example_Datasource"
    using t e u by simp
  moreover have "\<not> isStreamable ?Q"
    using t e by blast
  ultimately show ?thesis
    using e s l by (simp add: pqs p)
qed

section \<open>The URI builder\<close>

lemma digit_char_range:
  "d < 10 \<Longrightarrow> 48 \<le> (of_char (digit_char d) :: nat) \<and> (of_char (digit_char d) :: nat) \<le> 57"
proof -
  assume "d < 10"
  then have "digit_char d \<in> set ''0123456789''"
    unfolding digit_char_def by (intro nth_mem) simp
  then show ?thesis by auto
qed

lemma show_nat_digits: "\<forall>c\<in>set (show_nat n). 48 \<le> (of_char c :: nat) \<and> (of_char c :: nat) \<le> 57"
proof (induction n rule: show_nat.induct)
  case (1 n)
  show ?case
  proof (cases "n < 10")
    case True
    then show ?thesis
      by (subst show_nat.simps) (simp add: digit_char_range)
  next
    case False
    have "n mod 10 < 10" by simp
    then have "48 \<le> (of_char (digit_char (n mod 10)) :: nat)
             \<and> (of_char (digit_char (n mod 10)) :: nat) \<le> 57"
      by (rule digit_char_range)
    then show ?thesis
      using False 1 by (subst show_nat.simps) simp
  qed
qed

lemma show_int_chars:
  "c \<in> set (show_int i) \<Longrightarrow> c = CHR ''-'' \<or> (48 \<le> (of_char c :: nat) \<and> (of_char c :: nat) \<le> 57)"
  using show_nat_digits by (auto simp: show_int_def split: if_splits)

lemma show_int_no_separator:
  "CHR ''&'' \<notin> set (show_int i)" "CHR ''?'' \<notin> set (show_int i)" "CHR ''='' \<notin> set (show_int i)"
  using show_int_chars[of "CHR ''&''" i] show_int_chars[of "CHR ''?''" i]
    show_int_chars[of "CHR ''=''" i]
  by auto

lemma upperhex_unreserved: "is_unreserved (upperhex d)"
proof -
  have "upperhex d \<in> set ''0123456789ABCDEF''"
    unfolding upperhex_def by (rule nth_mem) simp
  then show ?thesis
    by (auto simp: is_unreserved_def)
qed

lemma escape_byte_chars:
  "x \<in> set (escape_byte c) \<Longrightarrow> is_unreserved x \<or> x = CHR ''%'' \<or> x = CHR ''+''"
  by (auto simp: escape_byte_def upperhex_unreserved split: if_splits)

lemma QueryEscape_chars:
  "x \<in> set (QueryEscape s) \<Longrightarrow> is_unreserved x \<or> x = CHR ''%'' \<or> x = CHR ''+''"
  by (auto simp: QueryEscape_def dest: escape_byte_chars)

lemma QueryEscape_no_separator:
  "CHR ''&'' \<notin> set (QueryEscape s)" "CHR ''?'' \<notin> set (QueryEscape s)"
  "CHR ''='' \<notin> set (QueryEscape s)"
  using QueryEscape_chars[of "CHR ''&''" s] QueryEscape_chars[of "CHR ''?''" s]
    QueryEscape_chars[of "CHR ''=''" s]
  by (auto simp: is_unreserved_def)

lemma summaryTypes_loop_concat:
  "summaryTypes_loop uri ts =
     uri @ concat (map (\<lambda>t. ''&summaryType='' @ SummaryTYpeValue.Value (SummaryType.Value t)) ts)"
  by (induction ts arbitrary: uri) simp_all

text \<open>
  C3. For a query with a non-empty expression and no summary configured, the URI is
  \<open>/calculation/intervals\<close>, the time range as \<open>startTime\<close> and \<open>endTime\<close>, \<open>sampleInterval\<close>
  with the query's own interval when that is not zero and the outer interval otherwise,
  followed by \<open>ms\<close>, and \<open>expression\<close> with the escaped expression, in which only
  unreserved characters, \<open>%\<close> and \<open>+\<close> occur.
\<close>

theorem calculation_intervals_uri:
  assumes "Expression (Pi q) \<noteq> ''''" and "\<not> isSummary (Pi q)"
  shows "getQueryBaseURL f q =
           ''/calculation/intervals''
           @ ''?startTime='' @ f (From (Query.TimeRange q)) @ ''&endTime='' @ f (To (Query.TimeRange q))
           @ ''&sampleInterval=''
           @ show_int (sint (if IntervalMs (Pi q) \<noteq> 0 then IntervalMs (Pi q) else Query.Interval q))
           @ ''ms''
           @ ''&expression='' @ QueryEscape (Expression (Pi q))
       \<and> (\<forall>c\<in>set (QueryEscape (Expression (Pi q))).
             is_unreserved c \<or> c = CHR ''%'' \<or> c = CHR ''+'')"
proof
  show "getQueryBaseURL f q =
           ''/calculation/intervals''
           @ ''?startTime='' @ f (From (Query.TimeRange q)) @ ''&endTime='' @ f (To (Query.TimeRange q))
           @ ''&sampleInterval=''
           @ show_int (sint (if IntervalMs (Pi q) \<noteq> 0 then IntervalMs (Pi q) else Query.Interval q))
           @ ''ms''
           @ ''&expression='' @ QueryEscape (Expression (Pi q))"
    using assms
    by (simp add: getQueryBaseURL_def isExpression_def getTimeRangeURIComponent_def
        getIntervalTime_def)
  show "\<forall>c\<in>set (QueryEscape (Expression (Pi q))).
          is_unreserved c \<or> c = CHR ''%'' \<or> c = CHR ''+''"
    using QueryEscape_chars by blast
qed

theorem calculation_intervals_uri_witness:
  "Expression (Pi (example_Query example_expression_Pi)) \<noteq> ''''
   \<and> \<not> isSummary (Pi (example_Query example_expression_Pi))
   \<and> getQueryBaseURL example_rfc3339 (example_Query example_expression_Pi) =
       ''/calculation/intervals?startTime=1970-01-01T00:00:00Z&endTime=1970-01-01T01:00:00Z&sampleInterval=1000ms&expression=TagAvg%28a+b%29%26x%3D1''
   \<and> getQueryBaseURL example_rfc3339
         ((example_Query example_expression_Pi)\<lparr>Pi := example_expression_Pi\<lparr>IntervalMs := 250\<rparr>\<rparr>) =
       ''/calculation/intervals?startTime=1970-01-01T00:00:00Z&endTime=1970-01-01T01:00:00Z&sampleInterval=250ms&expression=TagAvg%28a+b%29%26x%3D1''"
proof -
  let ?Q = "example_Query example_expression_Pi"
  let ?Q' = "?Q\<lparr>Pi := example_expression_Pi\<lparr>IntervalMs := 250\<rparr>\<rparr>"
  have e: "Expression (Pi ?Q) \<noteq> ''''" "Expression (Pi ?Q') \<noteq> ''''"
    and s: "\<not> isSummary (Pi ?Q)" "\<not> isSummary (Pi ?Q')"
    by (simp_all add: example_Query_def example_expression_Pi_def example_Pi_def isSummary_def)
  have esc: "QueryEscape ''TagAvg(a b)&x=1'' = ''TagAvg%28a+b%29%26x%3D1''"
    by (simp add: QueryEscape_def escape_byte_def is_unreserved_def upperhex_def)
  have n1: "show_int 1000 = ''1000''" and n2: "show_int 250 = ''250''"
    by (simp_all add: show_int_def show_nat.simps digit_char_def)
  show ?thesis
    using calculation_intervals_uri[OF e(1) s(1), of example_rfc3339]
      calculation_intervals_uri[OF e(2) s(2), of example_rfc3339] e s
    by (simp add: example_Query_def example_expression_Pi_def example_Pi_def example_rfc3339_def
        esc n1 n2)
qed

lemma show_int_no_slash: "CHR ''/'' \<notin> set (show_int i)"
  using show_int_chars[of "CHR ''/''" i] by auto

text \<open>
  C4. For a query without an expression, the path of the URI (the text before \<open>?\<close>) is
  \<open>/streamsets/\<close> followed by one mode, chosen in the order summary, interpolated, recorded,
  plot; so exactly one of the four mode names is a component of the path. When neither the
  rendered instants nor the summary fragment hold a \<open>/\<close>, the two slashes of the path are the
  only ones of the whole URI, so no second mode can occur after the path either.
\<close>

theorem streamsets_mode_by_precedence:
  assumes "Expression (Pi q) = ''''"
  shows "strings_Split (takeWhile (\<lambda>c. c \<noteq> CHR ''?'') (getQueryBaseURL f q)) CHR ''/'' =
           ['''', ''streamsets'',
            (if isSummary (Pi q) then ''summary''
             else if isInterpolated (Pi q) then ''interpolated''
             else if isRecordedValues (Pi q) then ''recorded''
             else ''plot'')]
       \<and> filter (\<lambda>c. c \<in> {''summary'', ''interpolated'', ''recorded'', ''plot''})
            (strings_Split (takeWhile (\<lambda>c. c \<noteq> CHR ''?'') (getQueryBaseURL f q)) CHR ''/'') =
           [if isSummary (Pi q) then ''summary''
            else if isInterpolated (Pi q) then ''interpolated''
            else if isRecordedValues (Pi q) then ''recorded''
            else ''plot'']
       \<and> (CHR ''/'' \<notin> set (f (From (Query.TimeRange q))) \<longrightarrow>
          CHR ''/'' \<notin> set (f (To (Query.TimeRange q))) \<longrightarrow>
          (isSummary (Pi q) \<longrightarrow> CHR ''/'' \<notin> set (getSummaryURIComponent (Pi q))) \<longrightarrow>
            filter (\<lambda>c. c = CHR ''/'') (getQueryBaseURL f q) = ''//'')"
proof (intro conjI impI)
  show path: "strings_Split (takeWhile (\<lambda>c. c \<noteq> CHR ''?'') (getQueryBaseURL f q)) CHR ''/'' =
           ['''', ''streamsets'',
            (if isSummary (Pi q) then ''summary''
             else if isInterpolated (Pi q) then ''interpolated''
             else if isRecordedValues (Pi q) then ''recorded''
             else ''plot'')]"
    using assms
    by (simp add: getQueryBaseURL_def isExpression_def getTimeRangeURIComponent_def)
  show "filter (\<lambda>c. c \<in> {''summary'', ''interpolated'', ''recorded'', ''plot''})
            (strings_Split (takeWhile (\<lambda>c. c \<noteq> CHR ''?'') (getQueryBaseURL f q)) CHR ''/'') =
           [if isSummary (Pi q) then ''summary''
            else if isInterpolated (Pi q) then ''interpolated''
            else if isRecordedValues (Pi q) then ''recorded''
            else ''plot'']"
    unfolding path by simp
next
  assume a: "CHR ''/'' \<notin> set (f (From (Query.TimeRange q)))"
    and b: "CHR ''/'' \<notin> set (f (To (Query.TimeRange q)))"
    and c: "isSummary (Pi q) \<longrightarrow> CHR ''/'' \<notin> set (getSummaryURIComponent (Pi q))"
  have none: "CHR ''/'' \<notin> set s \<Longrightarrow> filter (\<lambda>c. c = CHR ''/'') s = []" for s
    by (induction s) auto
  have t: "filter (\<lambda>c. c = CHR ''/'') (getTimeRangeURIComponent f q) = []"
    using a b by (simp add: getTimeRangeURIComponent_def none)
  have n: "filter (\<lambda>c. c = CHR ''/'') (show_int i) = []" for i
    using show_int_no_slash by (rule none)
  show "filter (\<lambda>c. c = CHR ''/'') (getQueryBaseURL f q) = ''//''"
    using assms c by (simp add: getQueryBaseURL_def isExpression_def t n none)
qed

theorem streamsets_mode_by_precedence_witness:
  "Expression (Pi (example_Query example_Pi)) = ''''
   \<and> strings_Split (takeWhile (\<lambda>c. c \<noteq> CHR ''?'')
        (getQueryBaseURL example_rfc3339 (example_Query example_Pi))) CHR ''/''
     = ['''', ''streamsets'', ''plot'']
   \<and> filter (\<lambda>c. c = CHR ''/'') (getQueryBaseURL example_rfc3339 (example_Query example_Pi)) = ''//''
   \<and> strings_Split (takeWhile (\<lambda>c. c \<noteq> CHR ''?'')
        (getQueryBaseURL example_rfc3339
           (example_Query (example_Pi\<lparr>Interpolate_Enable := True, RecordedValues_Enable := True,
                                      Summary := example_summary\<rparr>)))) CHR ''/''
     = ['''', ''streamsets'', ''summary'']
   \<and> strings_Split (takeWhile (\<lambda>c. c \<noteq> CHR ''?'')
        (getQueryBaseURL example_rfc3339
           (example_Query (example_Pi\<lparr>Interpolate_Enable := True, RecordedValues_Enable := True\<rparr>))))
        CHR ''/''
     = ['''', ''streamsets'', ''interpolated'']
   \<and> strings_Split (takeWhile (\<lambda>c. c \<noteq> CHR ''?'')
        (getQueryBaseURL example_rfc3339
           (example_Query (example_Pi\<lparr>RecordedValues_Enable := True\<rparr>)))) CHR ''/''
     = ['''', ''streamsets'', ''recorded'']"
proof -
  let ?q0 = "example_Query example_Pi"
  let ?q1 = "example_Query (example_Pi\<lparr>Interpolate_Enable := True, RecordedValues_Enable := True,
                                      Summary := example_summary\<rparr>)"
  let ?q2 = "example_Query (example_Pi\<lparr>Interpolate_Enable := True, RecordedValues_Enable := True\<rparr>)"
  let ?q3 = "example_Query (example_Pi\<lparr>RecordedValues_Enable := True\<rparr>)"
  have e: "Expression (Pi ?q0) = ''''" "Expression (Pi ?q1) = ''''" "Expression (Pi ?q2) = ''''"
    "Expression (Pi ?q3) = ''''"
    by (simp_all add: example_Query_def example_Pi_def)
  have m: "\<not> isSummary (Pi ?q0)" "\<not> isInterpolated (Pi ?q0)" "\<not> isRecordedValues (Pi ?q0)"
    "isSummary (Pi ?q1)"
    "\<not> isSummary (Pi ?q2)" "isInterpolated (Pi ?q2)"
    "\<not> isSummary (Pi ?q3)" "\<not> isInterpolated (Pi ?q3)" "isRecordedValues (Pi ?q3)"
    by (simp_all add: example_Query_def example_Pi_def example_summary_def isSummary_def
        isInterpolated_def isRecordedValues_def)
  have s: "CHR ''/'' \<notin> set (example_rfc3339 (From (Query.TimeRange ?q0)))"
    "CHR ''/'' \<notin> set (example_rfc3339 (To (Query.TimeRange ?q0)))"
    by (simp_all add: example_rfc3339_def)
  have "filter (\<lambda>c. c = CHR ''/'') (getQueryBaseURL example_rfc3339 ?q0) = ''//''"
    using streamsets_mode_by_precedence[OF e(1), of example_rfc3339] s m(1) by blast
  then show ?thesis
    using streamsets_mode_by_precedence[OF e(1), of example_rfc3339]
      streamsets_mode_by_precedence[OF e(2), of example_rfc3339]
      streamsets_mode_by_precedence[OF e(3), of example_rfc3339]
      streamsets_mode_by_precedence[OF e(4), of example_rfc3339]
    by (simp only: m e if_True if_False simp_thms)
qed

text \<open>The names of the query parameters of a calculation URI, read off the built string.\<close>

lemma calculation_parameter_names:
  assumes "Expression (Pi q) \<noteq> ''''"
    and "CHR ''&'' \<notin> set (f (From (Query.TimeRange q)))"
    and "CHR ''&'' \<notin> set (f (To (Query.TimeRange q)))"
  shows "map (takeWhile (\<lambda>c. c \<noteq> CHR ''=''))
           (strings_Split (tl (dropWhile (\<lambda>c. c \<noteq> CHR ''?'') (getQueryBaseURL f q))) CHR ''&'') =
         [''startTime'', ''endTime'']
         @ (if isSummary (Pi q)
            then (if isInterpolated (Pi q) then [''sampleType'', ''sampleInterval''] else [])
            else [''sampleInterval''])
         @ [''expression'']"
proof -
  let ?a1 = "''startTime='' @ f (From (Query.TimeRange q))"
  let ?a2 = "''endTime='' @ f (To (Query.TimeRange q))"
  let ?s = "''sampleInterval='' @ show_int (sint (getIntervalTime q)) @ ''ms''"
  let ?e = "''expression='' @ QueryEscape (Expression (Pi q))"
  have n1: "CHR ''&'' \<notin> set ?a1" and n2: "CHR ''&'' \<notin> set ?a2"
    using assms(2,3) by simp_all
  have ns: "CHR ''&'' \<notin> set ?s"
    using show_int_no_separator(1) by simp
  have nt: "CHR ''&'' \<notin> set ''sampleType=Interval''" by simp
  have ne: "CHR ''&'' \<notin> set ?e"
    using QueryEscape_no_separator(1) by simp
  have last: "strings_Split ?e CHR ''&'' = [?e]"
    using ne by (rule strings_Split_notin)
  have names: "takeWhile (\<lambda>c. c \<noteq> CHR ''='') ?a1 = ''startTime''"
    "takeWhile (\<lambda>c. c \<noteq> CHR ''='') ?a2 = ''endTime''"
    "takeWhile (\<lambda>c. c \<noteq> CHR ''='') ?s = ''sampleInterval''"
    "takeWhile (\<lambda>c. c \<noteq> CHR ''='') ''sampleType=Interval'' = ''sampleType''"
    "takeWhile (\<lambda>c. c \<noteq> CHR ''='') ?e = ''expression''"
    by simp_all
  consider (intervals) "\<not> isSummary (Pi q)"
    | (summary_interp) "isSummary (Pi q)" "isInterpolated (Pi q)"
    | (summary_plain) "isSummary (Pi q)" "\<not> isInterpolated (Pi q)"
    by blast
  then show ?thesis
  proof cases
    case intervals
    have "tl (dropWhile (\<lambda>c. c \<noteq> CHR ''?'') (getQueryBaseURL f q))
          = ?a1 @ CHR ''&'' # (?a2 @ CHR ''&'' # (?s @ CHR ''&'' # ?e))"
      using assms(1) intervals
      by (simp add: getQueryBaseURL_def isExpression_def getTimeRangeURIComponent_def)
    then have "strings_Split (tl (dropWhile (\<lambda>c. c \<noteq> CHR ''?'') (getQueryBaseURL f q))) CHR ''&''
          = [?a1, ?a2, ?s, ?e]"
      by (simp only: strings_Split_append[OF n1] strings_Split_append[OF n2]
          strings_Split_append[OF ns] last)
    then show ?thesis
      using intervals by (simp only: list.map names) simp
  next
    case summary_interp
    have "tl (dropWhile (\<lambda>c. c \<noteq> CHR ''?'') (getQueryBaseURL f q))
          = ?a1 @ CHR ''&'' # (?a2 @ CHR ''&'' # (''sampleType=Interval'' @ CHR ''&'' # (?s @ CHR ''&'' # ?e)))"
      using assms(1) summary_interp
      by (simp add: getQueryBaseURL_def isExpression_def getTimeRangeURIComponent_def)
    then have "strings_Split (tl (dropWhile (\<lambda>c. c \<noteq> CHR ''?'') (getQueryBaseURL f q))) CHR ''&''
          = [?a1, ?a2, ''sampleType=Interval'', ?s, ?e]"
      by (simp only: strings_Split_append[OF n1] strings_Split_append[OF n2]
          strings_Split_append[OF nt] strings_Split_append[OF ns] last)
    then show ?thesis
      using summary_interp by (simp only: list.map names) simp
  next
    case summary_plain
    have "tl (dropWhile (\<lambda>c. c \<noteq> CHR ''?'') (getQueryBaseURL f q))
          = ?a1 @ CHR ''&'' # (?a2 @ CHR ''&'' # ?e)"
      using assms(1) summary_plain
      by (simp add: getQueryBaseURL_def isExpression_def getTimeRangeURIComponent_def)
    then have "strings_Split (tl (dropWhile (\<lambda>c. c \<noteq> CHR ''?'') (getQueryBaseURL f q))) CHR ''&''
          = [?a1, ?a2, ?e]"
      by (simp only: strings_Split_append[OF n1] strings_Split_append[OF n2] last)
    then show ?thesis
      using summary_plain by (simp only: list.map names) simp
  qed
qed

text \<open>
  C6. For a query that is not an expression, the summary fragment is one \<open>summaryType\<close>
  parameter per configured type, in order, then \<open>summaryBasis\<close>, then \<open>summaryDuration\<close> with
  \<open>30s\<close> when the summary interval is empty, and the URI of a summary query ends with it. For
  a query with a non-empty expression the fragment is empty, and (the rendered instants
  holding no \<open>&\<close>) none of the three names is a parameter of the URI, whether or not a
  summary is configured.
\<close>

theorem summary_fragment_only_without_expression:
  "(Expression (Pi q) = '''' \<longrightarrow>
        getSummaryURIComponent (Pi q) =
          concat (map (\<lambda>t. ''&summaryType='' @ SummaryTYpeValue.Value (SummaryType.Value t))
                    (Types (Summary (Pi q))))
          @ ''&summaryBasis='' @ Basis (Summary (Pi q))
          @ ''&summaryDuration=''
          @ (if QuerySummary.Interval (Summary (Pi q)) = '''' then ''30s''
             else QuerySummary.Interval (Summary (Pi q)))
      \<and> (isSummary (Pi q) \<longrightarrow>
            getQueryBaseURL f q =
              ''/streamsets/summary'' @ getTimeRangeURIComponent f q
              @ ''&intervals='' @ show_int (sint (getMaxDataPoints q))
              @ getSummaryURIComponent (Pi q)))
   \<and> (Expression (Pi q) \<noteq> '''' \<longrightarrow>
        getSummaryURIComponent (Pi q) = ''''
      \<and> (CHR ''&'' \<notin> set (f (From (Query.TimeRange q)))
           \<and> CHR ''&'' \<notin> set (f (To (Query.TimeRange q))) \<longrightarrow>
            set (map (takeWhile (\<lambda>c. c \<noteq> CHR ''=''))
                  (strings_Split (tl (dropWhile (\<lambda>c. c \<noteq> CHR ''?'') (getQueryBaseURL f q)))
                     CHR ''&''))
            \<inter> {''summaryType'', ''summaryBasis'', ''summaryDuration''} = {}))"
proof (intro conjI impI)
  assume e: "Expression (Pi q) = ''''"
  show "getSummaryURIComponent (Pi q) =
          concat (map (\<lambda>t. ''&summaryType='' @ SummaryTYpeValue.Value (SummaryType.Value t))
                    (Types (Summary (Pi q))))
          @ ''&summaryBasis='' @ Basis (Summary (Pi q))
          @ ''&summaryDuration=''
          @ (if QuerySummary.Interval (Summary (Pi q)) = '''' then ''30s''
             else QuerySummary.Interval (Summary (Pi q)))"
    using e
    by (simp add: getSummaryURIComponent_def isExpression_def summaryTypes_loop_concat
        getSummaryDuration_def)
  assume "isSummary (Pi q)"
  then show "getQueryBaseURL f q =
              ''/streamsets/summary'' @ getTimeRangeURIComponent f q
              @ ''&intervals='' @ show_int (sint (getMaxDataPoints q))
              @ getSummaryURIComponent (Pi q)"
    using e by (simp add: getQueryBaseURL_def isExpression_def)
next
  assume e: "Expression (Pi q) \<noteq> ''''"
  show "getSummaryURIComponent (Pi q) = ''''"
    using e by (simp add: getSummaryURIComponent_def isExpression_def)
  assume "CHR ''&'' \<notin> set (f (From (Query.TimeRange q)))
           \<and> CHR ''&'' \<notin> set (f (To (Query.TimeRange q)))"
  then have n: "CHR ''&'' \<notin> set (f (From (Query.TimeRange q)))"
    "CHR ''&'' \<notin> set (f (To (Query.TimeRange q)))"
    by simp_all
  show "set (map (takeWhile (\<lambda>c. c \<noteq> CHR ''=''))
                  (strings_Split (tl (dropWhile (\<lambda>c. c \<noteq> CHR ''?'') (getQueryBaseURL f q)))
                     CHR ''&''))
            \<inter> {''summaryType'', ''summaryBasis'', ''summaryDuration''} = {}"
    unfolding calculation_parameter_names[OF e n] by simp
qed

theorem summary_fragment_only_without_expression_witness:
  "Expression (Pi (example_Query (example_Pi\<lparr>Summary := example_summary\<rparr>))) = ''''
   \<and> isSummary (example_Pi\<lparr>Summary := example_summary\<rparr>)
   \<and> getSummaryURIComponent (example_Pi\<lparr>Summary := example_summary\<rparr>) =
       ''&summaryType=Average&summaryType=Maximum&summaryBasis=EventWeighted&summaryDuration=30s''
   \<and> getQueryBaseURL example_rfc3339 (example_Query (example_Pi\<lparr>Summary := example_summary\<rparr>)) =
       ''/streamsets/summary?startTime=1970-01-01T00:00:00Z&endTime=1970-01-01T01:00:00Z&intervals=100&summaryType=Average&summaryType=Maximum&summaryBasis=EventWeighted&summaryDuration=30s''
   \<and> Expression (Pi (example_Query (example_expression_Pi\<lparr>Summary := example_summary\<rparr>))) \<noteq> ''''
   \<and> isSummary (example_expression_Pi\<lparr>Summary := example_summary\<rparr>)
   \<and> getSummaryURIComponent (example_expression_Pi\<lparr>Summary := example_summary\<rparr>) = ''''
   \<and> set (map (takeWhile (\<lambda>c. c \<noteq> CHR ''=''))
        (strings_Split (tl (dropWhile (\<lambda>c. c \<noteq> CHR ''?'')
           (getQueryBaseURL example_rfc3339
              (example_Query (example_expression_Pi\<lparr>Summary := example_summary\<rparr>)))))
           CHR ''&''))
       \<inter> {''summaryType'', ''summaryBasis'', ''summaryDuration''} = {}"
proof -
  let ?s = "example_Query (example_Pi\<lparr>Summary := example_summary\<rparr>)"
  let ?x = "example_Query (example_expression_Pi\<lparr>Summary := example_summary\<rparr>)"
  have p: "Pi ?s = example_Pi\<lparr>Summary := example_summary\<rparr>"
    "Pi ?x = example_expression_Pi\<lparr>Summary := example_summary\<rparr>"
    by (simp_all add: example_Query_def)
  have e: "Expression (Pi ?s) = ''''" "Expression (Pi ?x) \<noteq> ''''"
    and i: "isSummary (Pi ?s)" "isSummary (Pi ?x)"
    by (simp_all add: example_Query_def example_Pi_def example_expression_Pi_def
        example_summary_def isSummary_def)
  have t: "CHR ''&'' \<notin> set (example_rfc3339 (From (Query.TimeRange ?x)))
           \<and> CHR ''&'' \<notin> set (example_rfc3339 (To (Query.TimeRange ?x)))"
    by (simp add: example_rfc3339_def)
  have tr: "getTimeRangeURIComponent example_rfc3339 ?s
            = ''?startTime=1970-01-01T00:00:00Z&endTime=1970-01-01T01:00:00Z''"
    by (simp add: getTimeRangeURIComponent_def example_Query_def example_rfc3339_def)
  have n: "show_int (sint (getMaxDataPoints ?s)) = ''100''"
    by (simp add: getMaxDataPoints_def example_Query_def example_Pi_def show_int_def
        show_nat.simps digit_char_def)
  note a = summary_fragment_only_without_expression[of ?s example_rfc3339]
  note b = summary_fragment_only_without_expression[of ?x example_rfc3339]
  have a1: "getSummaryURIComponent (Pi ?s) =
       ''&summaryType=Average&summaryType=Maximum&summaryBasis=EventWeighted&summaryDuration=30s''"
    using a e(1) by (simp add: example_Query_def example_summary_def)
  have a2: "getQueryBaseURL example_rfc3339 ?s =
       ''/streamsets/summary?startTime=1970-01-01T00:00:00Z&endTime=1970-01-01T01:00:00Z&intervals=100&summaryType=Average&summaryType=Maximum&summaryBasis=EventWeighted&summaryDuration=30s''"
    using a e(1) i(1) by (simp add: a1 tr n)
  have b1: "getSummaryURIComponent (Pi ?x) = ''''"
    using b e(2) by blast
  have b2: "set (map (takeWhile (\<lambda>c. c \<noteq> CHR ''=''))
        (strings_Split (tl (dropWhile (\<lambda>c. c \<noteq> CHR ''?'') (getQueryBaseURL example_rfc3339 ?x)))
           CHR ''&''))
       \<inter> {''summaryType'', ''summaryBasis'', ''summaryDuration''} = {}"
    using b e(2) t by blast
  show ?thesis
    using e i a1 a2 b1 b2 unfolding p by (intro conjI)
qed

section \<open>Response classification\<close>

text \<open>
  C8. A sub-response with status 200 whose \<open>Content.Items\<close> is the empty array: the source
  reads \<open>items[0]\<close> with no check of the length, which panics, so no classification is
  returned.
\<close>

theorem UnmarshalJSON_empty_Items_panics:
  "UnmarshalJSON (Some (JObj [(''Status'', JInt 200), (''Content'', JObj [(''Items'', JArr [])])]))
   = Inl IndexOutOfRange"
  by (simp add: UnmarshalJSON_def dec_Status_def)









section \<open>Partial failure of the batch call\<close>

lemma frames_loop_nil_Response:
  "Response q = None \<Longrightarrow> frames_loop E refID d frames (q # qs) = (d, Inl NilDereference)"
  by (simp add: Let_def)

lemma batchRequest_RefID_send_failure:
  "apiBatchRequest E (map (\<lambda>(i, p). (show_nat i, BatchRequest p)) (enumerate 0 pqs)) = Inl err \<Longrightarrow>
   batchRequest_RefID E pqs = Inr pqs"
  by (simp add: batchRequest_RefID_def)

text \<open>
  C1. One query, RefID \<open>A\<close>, target \<open>Base;Seg1;Seg2\<close>, both paths resolving, and a batch call
  that fails to send. \<open>batchRequest\<close> returns the map with both entries of \<open>A\<close> holding no
  response; \<open>processBatchtoFrames\<close> then calls \<open>getItems\<close> on the nil response of the first
  entry, and \<open>QueryData\<close> panics instead of returning frames.
\<close>

theorem QueryData_panics_after_failed_batch:
  "map_sum id (map (\<lambda>(refID, pqs). (refID, map Response pqs)))
     (case processQueries_loop (example_env example_Pi failing_api) example_Datasource ''uid'' []
             [example_DataQuery] of
        Inl e \<Rightarrow> Inl e
      | Inr processedQueries \<Rightarrow> batchRequest (example_env example_Pi failing_api) processedQueries)
   = Inr [(''A'', [None, None])]
   \<and> QueryData (example_env example_Pi failing_api) example_Datasource ''uid'' [example_DataQuery]
     = (example_Datasource, Inl NilDereference)"
proof -
  let ?E = "example_env example_Pi failing_api"
  let ?Q = "example_Query example_Pi"
  have u: "unmarshalQuery ?E example_DataQuery = Some ?Q"
    by (simp add: example_env_def example_DataQuery_def example_Query_def)
  have semi: "CHR '';'' \<in> set (Target (Pi ?Q))"
    by (simp add: example_Query_def example_Pi_def)
  have b: "getBasePath (Pi ?Q) = Inr ''Base''"
    unfolding getBasePath_in[OF semi] by (simp add: example_Query_def example_Pi_def)
  have t: "getTargets (Pi ?Q) = Inr [''Seg1'', ''Seg2'']"
    unfolding getTargets_in[OF semi] by (simp add: example_Query_def example_Pi_def)
  obtain new where
    new: "processQuery_loop ?E example_Datasource ?Q ''uid'' [] [''Seg1'', ''Seg2''] = Inr ([] @ new)"
         "map PiProcessedQuery.Label new =
            filter (\<lambda>t. \<not> isl (getWebID ?E (''Base'' @ (if IsPiPoint (Pi ?Q) then [CHR 0x5C] else ''|'') @ t)
                                  (IsPiPoint (Pi ?Q)))) [''Seg1'', ''Seg2'']"
         "\<forall>p\<in>set new. Response p = None"
    using processQuery_loop_props[OF b, of ?E example_Datasource "''uid''" "[]" "[''Seg1'', ''Seg2'']"]
    by blast
  have "map PiProcessedQuery.Label new = [''Seg1'', ''Seg2'']"
    using new(2) by (simp add: example_env_def example_getWebID_def example_Query_def example_Pi_def)
  then obtain p1 p2 where p: "new = [p1, p2]"
    by (cases new; cases "tl new"; cases "tl (tl new)") auto
  have r: "Response p1 = None" "Response p2 = None"
    using new(3) by (simp_all add: p)
  have pq: "processQuery ?E example_Datasource example_DataQuery ''uid'' = Inr [p1, p2]"
    using new(1) by (simp add: processQuery_def u t p)
  have rid: "DataQuery.RefID example_DataQuery = ''A''"
    by (simp add: example_DataQuery_def)
  have pl: "processQueries_loop ?E example_Datasource ''uid'' [] [example_DataQuery]
            = Inr [(''A'', [p1, p2])]"
    by (simp add: pq rid)
  have api: "apiBatchRequest ?E = failing_api"
    by (simp add: example_env_def)
  have br: "batchRequest ?E [(''A'', [p1, p2])] = Inr [(''A'', [p1, p2])]"
    by (simp add: batchRequest_RefID_send_failure[of _ _ "''connection refused''"] api failing_api_def)
  have fr: "processBatchtoFrames ?E example_Datasource [(''A'', [p1, p2])]
            = (example_Datasource, Inl NilDereference)"
    by (simp only: processBatchtoFrames_def processBatchtoFrames_loop.simps
        frames_loop_nil_Response[OF r(1)] prod.case sum.case)
  have q1: "(case processQueries_loop ?E example_Datasource ''uid'' [] [example_DataQuery] of
               Inl e \<Rightarrow> Inl e
             | Inr processedQueries \<Rightarrow> batchRequest ?E processedQueries)
            = Inr [(''A'', [p1, p2])]"
    by (simp only: pl sum.case br)
  have q2: "QueryData ?E example_Datasource ''uid'' [example_DataQuery]
            = (example_Datasource, Inl NilDereference)"
    by (simp only: QueryData_def pl sum.case br fr)
  show ?thesis
    unfolding q1 q2 by (simp add: r)
qed

section \<open>A complete run\<close>

text \<open>
  The pipeline on the example request when the server answers every sub-request with the
  nested response: both segments resolve, both responses are classified as nested, each
  frame carries the one decoded item and, the query being streamable, a channel of its own.
\<close>

lemma QueryData_example_run:
  "uuids_drawn (fst (QueryData (example_env example_Pi example_api) example_Datasource ''uid''
                       [example_DataQuery])) = 2
   \<and> map_sum id
        (map (\<lambda>(refID, r).
           (refID, map (\<lambda>fr. (Name fr, Frame.RefID fr, map_option Channel (Meta fr), length (Fields fr)))
                     (Frames r))))
        (snd (QueryData (example_env example_Pi example_api) example_Datasource ''uid''
                [example_DataQuery]))
     = Inr [(''A'', [(''Seg1'', ''A'', Some ''ds/uid/uuid-0'', 1),
                     (''Seg2'', ''A'', Some ''ds/uid/uuid-1'', 1)])]"
proof -
  let ?E = "example_env example_Pi example_api"
  have n: "show_nat 0 = ''0''" "show_nat 1 = ''1''" "show_nat (Suc 0) = ''1''"
    by (simp_all add: show_nat.simps digit_char_def)
  have k: "ParseInt ''0'' = Some 0" "ParseInt ''1'' = Some 1"
    by (simp_all add: ParseInt_def digit_val_def)
  have u: "UnmarshalJSON (Some example_nested_response) =
      Inr \<lparr>Status = 200, Content = Some (DataWithSubItems
        \<lparr>PiBatchDataWithSubItems.Links = [],
         PiBatchDataWithSubItems.Items =
           [\<lparr>WebId = ''W1'', Name = '''', Path = '''',
             PiBatchContentItems.Links = \<lparr>Source = ''''\<rparr>,
             PiBatchContentItems.Items =
               [\<lparr>Timestamp = ''2024-01-01T00:00:00Z'', PiBatchContentItem.Value = JReal ''12.3'',
                 PiBatchContentItem.UnitsAbbreviation = '''', Good = True,
                 Questionable = False, Substituted = False, Annotated = False\<rparr>],
             PiBatchContentItems.UnitsAbbreviation = ''psi''\<rparr>],
         PiBatchDataWithSubItems.Error = None\<rparr>)\<rparr>"
    by (simp add: UnmarshalJSON_def dec_Status_def dec_PiBatchDataWithSubItems_def
        example_nested_response_def example_item_def)
  have q: "unmarshalQuery ?E example_DataQuery = Some (example_Query example_Pi)"
    by (simp add: example_env_def example_DataQuery_def example_Query_def)
  have semi: "CHR '';'' \<in> set (Target (Pi (example_Query example_Pi)))"
    by (simp add: example_Query_def example_Pi_def)
  have b: "getBasePath (Pi (example_Query example_Pi)) = Inr ''Base''"
    unfolding getBasePath_in[OF semi] by (simp add: example_Query_def example_Pi_def)
  have t: "getTargets (Pi (example_Query example_Pi)) = Inr [''Seg1'', ''Seg2'']"
    unfolding getTargets_in[OF semi] by (simp add: example_Query_def example_Pi_def)
  have s: "isStreamable (example_Query example_Pi)"
    by (simp add: isStreamable_def isExpression_def streamingEnabled_def example_Query_def
        example_Pi_def)
  have i: "IsPiPoint (Pi (example_Query example_Pi)) = False"
    by (simp add: example_Query_def example_Pi_def)
  have e: "getWebID ?E = example_getWebID" "apiBatchRequest ?E = example_api"
    "convertItemsToDataFrame ?E = example_convert" "newUUID ?E = (\<lambda>n. ''uuid-'' @ show_nat n)"
    by (simp_all add: example_env_def)
  have rid: "DataQuery.RefID example_DataQuery = ''A''"
    by (simp add: example_DataQuery_def)
  have d: "uuids_drawn example_Datasource = 0"
    by (simp add: example_Datasource_def)
  show ?thesis
    by (simp add: QueryData_def processQuery_def q t b i s e rid d n k u Let_def
        example_getWebID_def example_api_def example_convert_def
        batchRequest_RefID_def tempresponse_Content_def processBatchtoFrames_def)
qed

end
